theory Spec2Isabelle
  imports Complex_Main
begin

section \<open>JavaScript strings\<close>

text \<open>
  The programs are JavaScript. Strings are modelled as \<open>string\<close>, and
  \<open>String.prototype.toLowerCase\<close> on the ASCII letters (the addresses compared are
  hexadecimal text). Numbers are IEEE doubles in the source; the model computes with
  exact rationals and keeps \<open>NaN\<close> and the two infinities as separate values. The
  sign of zero and the representation error of binary floating point are outside the
  model.
\<close>

definition lower_char :: "char \<Rightarrow> char" where
  "lower_char c =
     (if 65 \<le> (of_char c :: nat) \<and> (of_char c :: nat) \<le> 90
      then char_of ((of_char c :: nat) + 32) else c)"

definition toLowerCase :: "string \<Rightarrow> string" where
  "toLowerCase s = map lower_char s"

section \<open>Event stream: the trade classifier (websocket-listener.js)\<close>

text \<open>The trade object built by \<open>handleOrderFilled\<close> from an \<open>OrderFilled\<close> event.\<close>

record raw_fill =
  blockNumber :: nat
  txHash :: string
  orderHash :: string
  maker :: string
  taker :: string
  makerAssetId :: string
  takerAssetId :: string
  makerAmountFilled :: string
  takerAmountFilled :: string
  fee :: string

definition TARGET_ADDRESS :: string where
  "TARGET_ADDRESS = toLowerCase ''0xa9456cecF9d6fb545F6408E0e2DbBFA307d7BaE6''"

definition determineTradeType :: "raw_fill \<Rightarrow> string" where
  "determineTradeType trade =
     (let targetLower = toLowerCase TARGET_ADDRESS;
          makerLower = toLowerCase (maker trade);
          takerLower = toLowerCase (taker trade);
          isMaker = (makerLower = targetLower);
          isTaker = (takerLower = targetLower);
          ZERO_ASSET = ''0''
      in if isMaker then
           (if makerAssetId trade = ZERO_ASSET then ''BUY'' else ''SELL'')
         else if isTaker then
           (if takerAssetId trade = ZERO_ASSET then ''SELL'' else ''BUY'')
         else ''UNKNOWN'')"

text \<open>Three fills used as concrete inputs below: the target as maker, the target as
  taker (written in upper case), and a fill between two other accounts.\<close>

definition fill_as_maker :: raw_fill where
  "fill_as_maker =
     \<lparr>blockNumber = 1, txHash = ''0xaa'', orderHash = ''0x01'',
      maker = ''0xa9456cecF9d6fb545F6408E0e2DbBFA307d7BaE6'', taker = ''0x01'',
      makerAssetId = ''0'', takerAssetId = ''77'',
      makerAmountFilled = ''5'', takerAmountFilled = ''10'', fee = ''0''\<rparr>"

definition fill_as_taker :: raw_fill where
  "fill_as_taker =
     \<lparr>blockNumber = 1, txHash = ''0xbb'', orderHash = ''0x02'',
      maker = ''0x01'', taker = ''0xA9456CECF9D6FB545F6408E0E2DBBFA307D7BAE6'',
      makerAssetId = ''77'', takerAssetId = ''0'',
      makerAmountFilled = ''10'', takerAmountFilled = ''5'', fee = ''0''\<rparr>"

definition fill_of_others :: raw_fill where
  "fill_of_others =
     \<lparr>blockNumber = 1, txHash = ''0xcc'', orderHash = ''0x03'',
      maker = ''0x01'', taker = ''0x02'',
      makerAssetId = ''0'', takerAssetId = ''77'',
      makerAmountFilled = ''5'', takerAmountFilled = ''10'', fee = ''0''\<rparr>"

text \<open>A fill in which the target is both maker and taker, paying the settlement currency
  for an outcome token; and a fill with an outcome token on both legs.\<close>

definition fill_self_trade :: raw_fill where
  "fill_self_trade =
     \<lparr>blockNumber = 1, txHash = ''0xdd'', orderHash = ''0x04'',
      maker = ''0xa9456cecF9d6fb545F6408E0e2DbBFA307d7BaE6'',
      taker = ''0xa9456cecF9d6fb545F6408E0e2DbBFA307d7BaE6'',
      makerAssetId = ''0'', takerAssetId = ''77'',
      makerAmountFilled = ''5'', takerAmountFilled = ''10'', fee = ''0''\<rparr>"

definition fill_two_tokens :: raw_fill where
  "fill_two_tokens =
     \<lparr>blockNumber = 1, txHash = ''0xee'', orderHash = ''0x05'',
      maker = ''0xa9456cecF9d6fb545F6408E0e2DbBFA307d7BaE6'', taker = ''0x01'',
      makerAssetId = ''77'', takerAssetId = ''78'',
      makerAmountFilled = ''5'', takerAmountFilled = ''5'', fee = ''0''\<rparr>"

section \<open>JavaScript numbers and values\<close>

datatype jsnum = NaN | NegInf | Fin rat | PosInf

datatype jsval = JUndefined | JNull | JBool bool | JNum jsnum | JStr string

text \<open>The truth value JavaScript gives a value in a condition.\<close>

fun truthy :: "jsval \<Rightarrow> bool" where
  "truthy JUndefined = False"
| "truthy JNull = False"
| "truthy (JBool b) = b"
| "truthy (JNum n) = (n \<noteq> NaN \<and> n \<noteq> Fin 0)"
| "truthy (JStr s) = (s \<noteq> [])"

text \<open>The operator \<open>||\<close>.\<close>

definition js_or :: "jsval \<Rightarrow> jsval \<Rightarrow> jsval" where
  "js_or a b = (if truthy a then a else b)"

subsection \<open>parseFloat\<close>

text \<open>
  \<open>parseFloat\<close> skips leading white space and reads the longest prefix that is a
  decimal literal: an optional sign, then \<open>Infinity\<close> or digits with an optional
  fraction and exponent. Text with no such prefix gives \<open>NaN\<close>. A number converts
  to its own text first and reads back as itself; \<open>undefined\<close>, \<open>null\<close> and
  the booleans convert to text that is no literal.

  The model reads ASCII text. White space is the six ASCII white-space characters;
  JavaScript also skips the no-break space and the other Unicode white space, which the
  model takes for the start of the text and answers \<open>NaN\<close>. The value of a literal is
  the exact rational it writes: there is no rounding to the nearest double and no
  overflow, so \<open>1e309\<close> is \<open>Fin (10 ^ 309)\<close> here and \<open>Infinity\<close> in JavaScript.
\<close>

definition is_space :: "char \<Rightarrow> bool" where
  "is_space c = ((of_char c :: nat) \<in> {9, 10, 11, 12, 13, 32})"

definition is_digit :: "char \<Rightarrow> bool" where
  "is_digit c = (48 \<le> (of_char c :: nat) \<and> (of_char c :: nat) \<le> 57)"

definition digits_val :: "string \<Rightarrow> int" where
  "digits_val ds = foldl (\<lambda>n c. 10 * n + ((of_char c :: int) - 48)) 0 ds"

definition pow10 :: "int \<Rightarrow> rat" where
  "pow10 e = (if 0 \<le> e then 10 ^ nat e else 1 / 10 ^ nat (- e))"

definition parse_exponent :: "string \<Rightarrow> int" where
  "parse_exponent s =
     (if s \<noteq> [] \<and> (hd s = CHR ''e'' \<or> hd s = CHR ''E'') then
        (let r = tl s;
             neg = (r \<noteq> [] \<and> hd r = CHR ''-'');
             ds = takeWhile is_digit
                    (if r \<noteq> [] \<and> (hd r = CHR ''-'' \<or> hd r = CHR ''+'') then tl r else r)
         in if ds = [] then 0
            else if neg then - digits_val ds else digits_val ds)
      else 0)"

definition parse_unsigned :: "string \<Rightarrow> jsnum" where
  "parse_unsigned s =
     (if take 8 s = ''Infinity'' then PosInf
      else
        (let ip = takeWhile is_digit s;
             r1 = dropWhile is_digit s;
             dot = (r1 \<noteq> [] \<and> hd r1 = CHR ''.'');
             fp = (if dot then takeWhile is_digit (tl r1) else []);
             r2 = (if dot then dropWhile is_digit (tl r1) else r1)
         in if ip = [] \<and> fp = [] then NaN
            else Fin ((of_int (digits_val ip) + of_int (digits_val fp) / 10 ^ length fp)
                        * pow10 (parse_exponent r2))))"

fun js_negate :: "jsnum \<Rightarrow> jsnum" where
  "js_negate NaN = NaN"
| "js_negate NegInf = PosInf"
| "js_negate (Fin x) = Fin (- x)"
| "js_negate PosInf = NegInf"

definition parseFloat_string :: "string \<Rightarrow> jsnum" where
  "parseFloat_string s =
     (let t = dropWhile is_space s
      in if t \<noteq> [] \<and> hd t = CHR ''-'' then js_negate (parse_unsigned (tl t))
         else if t \<noteq> [] \<and> hd t = CHR ''+'' then parse_unsigned (tl t)
         else parse_unsigned t)"

fun parseFloat :: "jsval \<Rightarrow> jsnum" where
  "parseFloat (JStr s) = parseFloat_string s"
| "parseFloat (JNum n) = n"
| "parseFloat JUndefined = NaN"
| "parseFloat JNull = NaN"
| "parseFloat (JBool b) = NaN"

subsection \<open>Arithmetic, Math.round, Math.max and Math.min\<close>

fun sign_of :: "jsnum \<Rightarrow> int" where
  "sign_of NaN = 0"
| "sign_of NegInf = - 1"
| "sign_of (Fin x) = (if x < 0 then - 1 else if x = 0 then 0 else 1)"
| "sign_of PosInf = 1"

definition signed_inf :: "int \<Rightarrow> jsnum" where
  "signed_inf s = (if s = 0 then NaN else if s < 0 then NegInf else PosInf)"

fun js_times :: "jsnum \<Rightarrow> jsnum \<Rightarrow> jsnum" where
  "js_times NaN b = NaN"
| "js_times a NaN = NaN"
| "js_times (Fin x) (Fin y) = Fin (x * y)"
| "js_times a b = signed_inf (sign_of a * sign_of b)"

fun js_divide :: "jsnum \<Rightarrow> jsnum \<Rightarrow> jsnum" where
  "js_divide NaN b = NaN"
| "js_divide a NaN = NaN"
| "js_divide (Fin x) (Fin y) = (if y = 0 then signed_inf (sign_of (Fin x)) else Fin (x / y))"
| "js_divide (Fin x) b = Fin 0"
| "js_divide a (Fin y) = signed_inf (sign_of a * (if y < 0 then - 1 else 1))"
| "js_divide a b = NaN"

text \<open>
  \<open>Math.round\<close> rounds to the nearest integer, a tie towards plus infinity. It is
  applied to the exact product here and to the rounded double product in JavaScript; the
  two differ where the exact product is a tie or just above one and the double falls
  below it. Price \<open>0.5005\<close> times 1000 is 500.49999999999994 in doubles and rounds to
  500, while the exact product 500.5 rounds to 501; size \<open>1.005\<close> times 100 is
  100.49999999999999 in doubles and rounds to 100, while the exact 100.5 rounds to 101.
  The statements about rounding below are statements about the exact arithmetic.
\<close>

fun Math_round :: "jsnum \<Rightarrow> jsnum" where
  "Math_round (Fin x) = Fin (of_int \<lfloor>x + 1 / 2\<rfloor>)"
| "Math_round n = n"

fun js_less :: "jsnum \<Rightarrow> jsnum \<Rightarrow> bool" where
  "js_less NaN b = False"
| "js_less a NaN = False"
| "js_less (Fin x) (Fin y) = (x < y)"
| "js_less a NegInf = False"
| "js_less NegInf b = True"
| "js_less PosInf b = False"
| "js_less a PosInf = True"

definition Math_max :: "jsnum \<Rightarrow> jsnum \<Rightarrow> jsnum" where
  "Math_max a b = (if a = NaN \<or> b = NaN then NaN else if js_less a b then b else a)"

definition Math_min :: "jsnum \<Rightarrow> jsnum \<Rightarrow> jsnum" where
  "Math_min a b = (if a = NaN \<or> b = NaN then NaN else if js_less b a then b else a)"

section \<open>The order mirror (mirrorTrade)\<close>

text \<open>
  The polling program comes as two programs with the same functions, one after the
  other in the source text. Both are modelled: \<open>mirrorTrade\<close> is the one of the
  first program (source lines 101 to 163), which checks its input and rounds;
  \<open>mirrorTrade2\<close> is the one of the second program (source lines 496 to 534), which
  does neither. \<open>pollForTrades\<close> and \<open>logTrade\<close> are the same text in both,
  except that the first asks the feed for 200 entries and the second for 100.
\<close>

datatype Side = BUY | SELL

datatype OrderType = GTC | IOC

text \<open>The argument of \<open>mirrorTrade\<close>: the fields \<open>asset\<close>, \<open>side\<close>,
  \<open>size\<close> and \<open>price\<close>, any of which may hold any value or be missing.\<close>

record trade_data =
  td_asset :: jsval
  td_side :: jsval
  td_size :: jsval
  td_price :: jsval

text \<open>The object handed to \<open>createOrder\<close>. The second program sets no
  \<open>feeRateBps\<close>.\<close>

record order_params =
  tokenID :: jsval
  op_side :: Side
  op_size :: jsnum
  op_price :: jsnum
  feeRateBps :: "jsnum option"

text \<open>What \<open>postOrder\<close> resolves to, with the fields the program reads; a field that
  is absent reads as \<open>undefined\<close>.\<close>

record api_result =
  success :: jsval
  orderID :: jsval
  result_id :: jsval
  status :: jsval

record js_error =
  message :: string
  response_data :: "string option"

text \<open>
  The trading client is outside the program. Its two calls are parameters: each either
  throws (\<open>Inl\<close>) or resolves (\<open>Inr\<close>); \<open>postOrder\<close> may resolve to
  \<open>null\<close> (\<open>None\<close>). The type \<open>'o\<close> is the signed order.
\<close>

record 'o clob_client =
  createOrder :: "order_params \<Rightarrow> js_error + 'o"
  postOrder :: "'o \<Rightarrow> OrderType \<Rightarrow> js_error + api_result option"

text \<open>What a run of \<open>mirrorTrade\<close> does, in order: the lines it prints and the calls
  it makes to the client.\<close>

datatype 'o mirror_effect =
    LogMissingFields jsval jsval jsval jsval
  | LogMirroring jsval jsval jsval jsval
  | LogCreatingOrder order_params
  | CallCreateOrder order_params
  | LogPostingOrder 'o
  | CallPostOrder 'o OrderType
  | LogOrderExecuted api_result
  | LogOrderFailed api_result
  | LogOrderPlaced
  | LogOrderIdStatus jsval jsval
  | LogMirrorFailed js_error

fun is_call :: "'o mirror_effect \<Rightarrow> bool" where
  "is_call (CallCreateOrder p) = True"
| "is_call (CallPostOrder order t) = True"
| "is_call e = False"

definition network_calls :: "'o mirror_effect list \<Rightarrow> 'o mirror_effect list" where
  "network_calls effects = filter is_call effects"

text \<open>Reading a field of \<open>null\<close> throws a \<open>TypeError\<close>, caught by the handler of
  \<open>mirrorTrade\<close>.\<close>

definition TypeError_null :: js_error where
  "TypeError_null = \<lparr>message = ''Cannot read properties of null'', response_data = None\<rparr>"

text \<open>The order parameters of the first program: price and size rounded, the price clamped.\<close>

definition orderParams :: "trade_data \<Rightarrow> order_params" where
  "orderParams tradeData =
     (let roundedPrice0 =
            js_divide (Math_round (js_times (parseFloat (td_price tradeData)) (Fin 1000))) (Fin 1000);
          roundedPrice = Math_max (Fin (1 / 100)) (Math_min (Fin (99 / 100)) roundedPrice0);
          roundedSize =
            js_divide (Math_round (js_times (parseFloat (td_size tradeData)) (Fin 100))) (Fin 100);
          orderSide = (if td_side tradeData = JStr ''BUY'' then BUY else SELL)
      in \<lparr>tokenID = td_asset tradeData, op_side = orderSide, op_size = roundedSize,
          op_price = roundedPrice, feeRateBps = Some (Fin 0)\<rparr>)"

definition mirrorTrade ::
  "'o clob_client \<Rightarrow> trade_data \<Rightarrow> 'o mirror_effect list \<times> api_result option" where
  "mirrorTrade clobClient tradeData =
     (let asset = td_asset tradeData; side = td_side tradeData;
          size = td_size tradeData; price = td_price tradeData
      in if \<not> truthy asset \<or> \<not> truthy side \<or> \<not> truthy size \<or> \<not> truthy price
         then ([LogMissingFields asset side size price], None)
         else
           (let started = [LogMirroring asset side size price,
                           LogCreatingOrder (orderParams tradeData),
                           CallCreateOrder (orderParams tradeData)]
            in case createOrder clobClient (orderParams tradeData) of
                 Inl error \<Rightarrow> (started @ [LogMirrorFailed error], None)
               | Inr order \<Rightarrow>
                   (let posted = started @ [LogPostingOrder order, CallPostOrder order IOC]
                    in case postOrder clobClient order IOC of
                         Inl error \<Rightarrow> (posted @ [LogMirrorFailed error], None)
                       | Inr None \<Rightarrow> (posted @ [LogMirrorFailed TypeError_null], None)
                       | Inr (Some result) \<Rightarrow>
                           (if truthy (success result)
                            then (posted @ [LogOrderExecuted result], Some result)
                            else (posted @ [LogOrderFailed result], Some result)))))"

text \<open>The order parameters of the second program: the parsed numbers as they are.\<close>

definition orderParams2 :: "trade_data \<Rightarrow> order_params" where
  "orderParams2 tradeData =
     \<lparr>tokenID = td_asset tradeData,
      op_side = (if td_side tradeData = JStr ''BUY'' then BUY else SELL),
      op_size = parseFloat (td_size tradeData),
      op_price = parseFloat (td_price tradeData),
      feeRateBps = None\<rparr>"

definition mirrorTrade2 ::
  "'o clob_client \<Rightarrow> trade_data \<Rightarrow> 'o mirror_effect list \<times> api_result option" where
  "mirrorTrade2 clobClient tradeData =
     (let asset = td_asset tradeData; side = td_side tradeData;
          size = td_size tradeData; price = td_price tradeData;
          started = [LogMirroring asset side size price,
                     LogCreatingOrder (orderParams2 tradeData),
                     CallCreateOrder (orderParams2 tradeData)]
      in case createOrder clobClient (orderParams2 tradeData) of
           Inl error \<Rightarrow> (started @ [LogMirrorFailed error], None)
         | Inr order \<Rightarrow>
             (let posted = started @ [LogPostingOrder order, CallPostOrder order GTC]
              in case postOrder clobClient order GTC of
                   Inl error \<Rightarrow> (posted @ [LogMirrorFailed error], None)
                 | Inr None \<Rightarrow>
                     (posted @ [LogOrderPlaced, LogMirrorFailed TypeError_null], None)
                 | Inr (Some result) \<Rightarrow>
                     (posted @ [LogOrderPlaced,
                                LogOrderIdStatus
                                  (js_or (js_or (orderID result) (result_id result)) (JStr ''N/A''))
                                  (js_or (status result) (JStr ''submitted''))],
                      Some result)))"

text \<open>Two clients for concrete runs: one whose \<open>postOrder\<close> answers with a true
  success flag, and one that answers with an error object carrying no success flag. The
  signed order is the parameter object itself.\<close>

definition accepting_client :: "order_params clob_client" where
  "accepting_client =
     \<lparr>createOrder = (\<lambda>p. Inr p),
      postOrder = (\<lambda>order t. Inr (Some \<lparr>success = JBool True, orderID = JStr ''0x1'',
                                            result_id = JUndefined, status = JStr ''matched''\<rparr>))\<rparr>"

definition error_result :: api_result where
  "error_result = \<lparr>success = JUndefined, orderID = JUndefined, result_id = JUndefined,
                    status = JNum (Fin 400)\<rparr>"

definition rejecting_client :: "order_params clob_client" where
  "rejecting_client =
     \<lparr>createOrder = (\<lambda>p. Inr p), postOrder = (\<lambda>order t. Inr (Some error_result))\<rparr>"

text \<open>Inputs for concrete runs.\<close>

definition buy_order :: trade_data where
  "buy_order = \<lparr>td_asset = JStr ''123'', td_side = JStr ''BUY'', td_size = JStr ''5'',
                 td_price = JStr ''0.4567''\<rparr>"

definition hold_order :: trade_data where
  "hold_order = \<lparr>td_asset = JStr ''123'', td_side = JStr ''HOLD'', td_size = JStr ''5'',
                  td_price = JStr ''0.5''\<rparr>"

definition sideless_order :: trade_data where
  "sideless_order = \<lparr>td_asset = JStr ''123'', td_side = JUndefined, td_size = JStr ''5'',
                      td_price = JStr ''0.5''\<rparr>"

definition sizeless_order :: trade_data where
  "sizeless_order = \<lparr>td_asset = JStr ''123'', td_side = JStr ''BUY'', td_size = JStr [],
                      td_price = JStr ''0.5''\<rparr>"

definition nonnumeric_order :: trade_data where
  "nonnumeric_order = \<lparr>td_asset = JStr ''123'', td_side = JStr ''BUY'', td_size = JStr ''abc'',
                        td_price = JStr ''0.5''\<rparr>"

definition overpriced_order :: trade_data where
  "overpriced_order = \<lparr>td_asset = JStr ''123'', td_side = JStr ''BUY'', td_size = JStr ''5.129'',
                        td_price = JStr ''1.2''\<rparr>"

section \<open>The activity poller (pollForTrades)\<close>

text \<open>
  An entry of the activity feed, with the fields the poller and the mirror read. The
  timestamp is in whole seconds. The hash and the asset are text; side, size and price
  are passed on to \<open>mirrorTrade\<close> as they come.
\<close>

record activity =
  timestamp :: int
  act_type :: string
  transactionHash :: string
  asset :: string
  act_side :: jsval
  act_size :: jsval
  act_price :: jsval

text \<open>The outcome of the request: the transport throws, the status is not a success, or
  the body is a list of entries.\<close>

datatype fetch_response = FetchThrows string | HttpNotOk nat | HttpOk "activity list"

definition fetchTargetActivity :: "fetch_response \<Rightarrow> activity list" where
  "fetchTargetActivity response =
     (case response of
        HttpOk items \<Rightarrow> filter (\<lambda>item. act_type item = ''TRADE'') items
      | HttpNotOk code \<Rightarrow> []
      | FetchThrows msg \<Rightarrow> [])"

text \<open>
  \<open>seenTrades\<close> is a JavaScript \<open>Set\<close> of strings, which iterates in insertion
  order: a list without repetition, oldest entry first. \<open>Array.from\<close> of the set is the
  list itself.
\<close>

definition Set_has :: "string list \<Rightarrow> string \<Rightarrow> bool" where
  "Set_has s x = (x \<in> set s)"

definition Set_add :: "string list \<Rightarrow> string \<Rightarrow> string list" where
  "Set_add s x = (if x \<in> set s then s else s @ [x])"

definition Set_delete :: "string list \<Rightarrow> string \<Rightarrow> string list" where
  "Set_delete s x = removeAll x s"

definition tradeId :: "activity \<Rightarrow> string" where
  "tradeId trade = transactionHash trade @ ''-'' @ asset trade"

text \<open>\<open>trades.sort((a, b) => b.timestamp - a.timestamp)\<close>: a stable sort, newest
  first.\<close>

definition sort_desc :: "activity list \<Rightarrow> activity list" where
  "sort_desc trades = sort_key (\<lambda>t. - timestamp t) trades"

text \<open>
  What a poll cycle does to the ledger and to the mirror, in order: \<open>Skip\<close> when
  \<open>seenTrades.has\<close> finds the id, \<open>Add\<close> for a call of \<open>seenTrades.add\<close>,
  \<open>LogTrade\<close> for a call of \<open>logTrade\<close> (which calls \<open>mirrorTrade\<close>),
  \<open>Delete\<close> for a call of \<open>seenTrades.delete\<close>.
\<close>

datatype poll_event = Skip string | Add string | LogTrade activity | Delete string

text \<open>The loop over the sorted trades. \<open>lastTimestamp\<close> is not written in the loop.\<close>

fun process_trades ::
  "int \<Rightarrow> activity list \<Rightarrow> string list \<Rightarrow> poll_event list \<times> string list" where
  "process_trades lastTimestamp [] seenTrades = ([], seenTrades)"
| "process_trades lastTimestamp (trade # rest) seenTrades =
     (if Set_has seenTrades (tradeId trade) then
        (case process_trades lastTimestamp rest seenTrades of
           (evs, seen') \<Rightarrow> (Skip (tradeId trade) # evs, seen'))
      else if timestamp trade < lastTimestamp - 5 then
        (case process_trades lastTimestamp rest (Set_add seenTrades (tradeId trade)) of
           (evs, seen') \<Rightarrow> (Add (tradeId trade) # evs, seen'))
      else
        (case process_trades lastTimestamp rest (Set_add seenTrades (tradeId trade)) of
           (evs, seen') \<Rightarrow> (Add (tradeId trade) # LogTrade trade # evs, seen')))"

text \<open>The clean-up at the end of a cycle.\<close>

definition compact :: "string list \<Rightarrow> poll_event list \<times> string list" where
  "compact seenTrades =
     (if length seenTrades > 10000 then
        (let entries = seenTrades; oldest = take 5000 entries
         in (map Delete oldest, fold (\<lambda>id s. Set_delete s id) oldest seenTrades))
      else ([], seenTrades))"

record poll_state =
  seenTrades :: "string list"
  lastTimestamp :: int

definition pollForTrades ::
  "fetch_response \<Rightarrow> poll_state \<Rightarrow> poll_event list \<times> poll_state" where
  "pollForTrades response st =
     (let trades = sort_desc (fetchTargetActivity response);
          (evs, seen1) = process_trades (lastTimestamp st) trades (seenTrades st);
          lastTimestamp' =
            (case trades of
               [] \<Rightarrow> lastTimestamp st
             | newest # others \<Rightarrow>
                 if timestamp newest > lastTimestamp st then timestamp newest
                 else lastTimestamp st);
          (dels, seen2) = compact seen1
      in (evs @ dels, \<lparr>seenTrades = seen2, lastTimestamp = lastTimestamp'\<rparr>))"

text \<open>\<open>startPolling\<close> runs one cycle after the other, each on the state the one before
  left. A run is the list of the cycles' events and states.\<close>

fun poll_run ::
  "fetch_response list \<Rightarrow> poll_state \<Rightarrow> (poll_event list \<times> poll_state) list" where
  "poll_run [] st = []"
| "poll_run (response # later) st =
     (case pollForTrades response st of
        (evs, st') \<Rightarrow> (evs, st') # poll_run later st')"




text \<open>The trades handed to \<open>logTrade\<close>, and with it to the order mirror.\<close>

fun mirrored :: "poll_event list \<Rightarrow> activity list" where
  "mirrored [] = []"
| "mirrored (LogTrade t # evs) = t # mirrored evs"
| "mirrored (e # evs) = mirrored evs"

definition tradeData_of :: "activity \<Rightarrow> trade_data" where
  "tradeData_of trade =
     \<lparr>td_asset = JStr (asset trade), td_side = act_side trade,
      td_size = act_size trade, td_price = act_price trade\<rparr>"

definition logTrade ::
  "'o clob_client \<Rightarrow> activity \<Rightarrow> 'o mirror_effect list \<times> api_result option" where
  "logTrade clobClient trade = mirrorTrade clobClient (tradeData_of trade)"

text \<open>Concrete activity: a trade three seconds newer than the watermark 1000, a trade a
  hundred seconds older, an entry that is no trade, and the old trade returned again with
  a recent timestamp.\<close>

definition trade_new :: activity where
  "trade_new = \<lparr>timestamp = 1003, act_type = ''TRADE'', transactionHash = ''0xaa'',
                 asset = ''123'', act_side = JStr ''BUY'', act_size = JNum (Fin 5),
                 act_price = JNum (Fin (1 / 2))\<rparr>"

definition trade_old :: activity where
  "trade_old = \<lparr>timestamp = 900, act_type = ''TRADE'', transactionHash = ''0xbb'',
                 asset = ''456'', act_side = JStr ''SELL'', act_size = JNum (Fin 7),
                 act_price = JNum (Fin (1 / 4))\<rparr>"

definition redeem_entry :: activity where
  "redeem_entry = \<lparr>timestamp = 1004, act_type = ''REDEEM'', transactionHash = ''0xcc'',
                    asset = ''123'', act_side = JUndefined, act_size = JNum (Fin 1),
                    act_price = JUndefined\<rparr>"

definition trade_old_again :: activity where
  "trade_old_again = trade_old\<lparr>timestamp := 1010\<rparr>"

definition state0 :: poll_state where
  "state0 = \<lparr>seenTrades = [], lastTimestamp = 1000\<rparr>"

definition response0 :: fetch_response where
  "response0 = HttpOk [trade_old, redeem_entry, trade_new]"

definition response1 :: fetch_response where
  "response1 = HttpOk [trade_old_again, trade_new]"

text \<open>The state the cycle on \<open>response0\<close> leaves.\<close>

definition state1 :: poll_state where
  "state1 = \<lparr>seenTrades = [''0xaa-123'', ''0xbb-456''], lastTimestamp = 1003\<rparr>"

text \<open>A ledger of \<open>n\<close> different ids, the oldest first.\<close>

definition numbered_ids :: "nat \<Rightarrow> string list" where
  "numbered_ids n = map (\<lambda>k. replicate k CHR ''x'') [0..<n]"

definition full_state :: poll_state where
  "full_state = \<lparr>seenTrades = numbered_ids 10000, lastTimestamp = 1000\<rparr>"

text \<open>The ids a poll cycle added to the ledger and the ids it deleted, in order.\<close>

fun added :: "poll_event list \<Rightarrow> string list" where
  "added [] = []"
| "added (Add x # evs) = x # added evs"
| "added (e # evs) = added evs"

fun deleted :: "poll_event list \<Rightarrow> string list" where
  "deleted [] = []"
| "deleted (Delete x # evs) = x # deleted evs"
| "deleted (e # evs) = deleted evs"

text \<open>
  The loop calls \<open>logTrade(trade)\<close> where the event list has \<open>LogTrade trade\<close>, and
  \<open>logTrade\<close> calls \<open>mirrorTrade\<close> once, without waiting for it. These are the runs of
  the order mirror that a poll cycle starts, one for each call and in the order of the
  calls; each run is listed with its own effects and result.
\<close>

definition logTrade_calls ::
  "'o clob_client \<Rightarrow> poll_event list \<Rightarrow> ('o mirror_effect list \<times> api_result option) list" where
  "logTrade_calls clobClient evs = map (logTrade clobClient) (mirrored evs)"

text \<open>A page of \<open>n\<close> trades with \<open>n\<close> different ids, a page of 5001 of them, and a
  page with one trade.\<close>

definition numbered_trades :: "nat \<Rightarrow> activity list" where
  "numbered_trades n =
     map (\<lambda>k. \<lparr>timestamp = 1003, act_type = ''TRADE'', transactionHash = replicate k CHR ''y'',
               asset = ''1'', act_side = JStr ''BUY'', act_size = JNum (Fin 1),
               act_price = JNum (Fin (1 / 2))\<rparr>) [0..<n]"

definition big_response :: fetch_response where
  "big_response = HttpOk (numbered_trades 5001)"

definition response_one :: fetch_response where
  "response_one = HttpOk [trade_new]"


section \<open>Properties of the trade classifier\<close>

lemma fill_as_maker_is_maker:
  "toLowerCase (maker fill_as_maker) = toLowerCase TARGET_ADDRESS"
  by code_simp

lemma fill_as_taker_is_taker:
  "toLowerCase (taker fill_as_taker) = toLowerCase TARGET_ADDRESS"
  by code_simp

lemma fill_as_taker_not_maker:
  "toLowerCase (maker fill_as_taker) \<noteq> toLowerCase TARGET_ADDRESS"
  by code_simp

lemma fill_of_others_neither:
  "toLowerCase (maker fill_of_others) \<noteq> toLowerCase TARGET_ADDRESS"
  "toLowerCase (taker fill_of_others) \<noteq> toLowerCase TARGET_ADDRESS"
  by code_simp+

lemma fill_self_trade_both:
  "toLowerCase (maker fill_self_trade) = toLowerCase TARGET_ADDRESS"
  "toLowerCase (taker fill_self_trade) = toLowerCase TARGET_ADDRESS"
  by code_simp+

text \<open>
  C1: when the target is the maker (addresses compared after lower-casing), the result is
  BUY for the sentinel \<open>makerAssetId\<close> and SELL otherwise; when the target is the
  taker, the result is SELL for the sentinel \<open>takerAssetId\<close> and BUY otherwise; when
  the target is neither, the result is UNKNOWN. The maker is tested first, so the taker
  row is stated for the fills on which it can differ from the maker row or agrees with
  it: the target is not also the maker, or exactly one of the two legs is the settlement
  currency, as on every fill of the two-asset exchange. On the remaining fills (the
  target on both sides and the same kind of asset on both legs) the two rows of the table
  ask for different results.
\<close>

theorem determineTradeType_table:
  "(toLowerCase (maker t) = toLowerCase TARGET_ADDRESS \<longrightarrow>
      (makerAssetId t = ''0'' \<longrightarrow> determineTradeType t = ''BUY'') \<and>
      (makerAssetId t \<noteq> ''0'' \<longrightarrow> determineTradeType t = ''SELL'')) \<and>
   (toLowerCase (taker t) = toLowerCase TARGET_ADDRESS \<and>
    (toLowerCase (maker t) \<noteq> toLowerCase TARGET_ADDRESS \<or>
     (makerAssetId t = ''0'' \<longleftrightarrow> takerAssetId t \<noteq> ''0'')) \<longrightarrow>
      (takerAssetId t = ''0'' \<longrightarrow> determineTradeType t = ''SELL'') \<and>
      (takerAssetId t \<noteq> ''0'' \<longrightarrow> determineTradeType t = ''BUY'')) \<and>
   (toLowerCase (maker t) \<noteq> toLowerCase TARGET_ADDRESS \<and>
    toLowerCase (taker t) \<noteq> toLowerCase TARGET_ADDRESS \<longrightarrow>
      determineTradeType t = ''UNKNOWN'')"
  by (auto simp: determineTradeType_def Let_def)

theorem determineTradeType_table_witness:
  "determineTradeType fill_as_maker = ''BUY'' \<and>
   determineTradeType (fill_as_maker\<lparr>makerAssetId := ''77'', takerAssetId := ''0''\<rparr>) = ''SELL'' \<and>
   determineTradeType fill_as_taker = ''SELL'' \<and>
   determineTradeType (fill_as_taker\<lparr>makerAssetId := ''0'', takerAssetId := ''77''\<rparr>) = ''BUY'' \<and>
   determineTradeType fill_self_trade = ''BUY'' \<and>
   determineTradeType (fill_self_trade\<lparr>makerAssetId := ''77'', takerAssetId := ''0''\<rparr>) = ''SELL'' \<and>
   determineTradeType fill_of_others = ''UNKNOWN''"
proof -
  have m: "toLowerCase (maker (fill_as_maker\<lparr>makerAssetId := a, takerAssetId := b\<rparr>))
             = toLowerCase TARGET_ADDRESS" for a b
    using fill_as_maker_is_maker by simp
  have k: "toLowerCase (taker (fill_as_taker\<lparr>makerAssetId := a, takerAssetId := b\<rparr>))
             = toLowerCase TARGET_ADDRESS \<and>
           toLowerCase (maker (fill_as_taker\<lparr>makerAssetId := a, takerAssetId := b\<rparr>))
             \<noteq> toLowerCase TARGET_ADDRESS" for a b
    using fill_as_taker_is_taker fill_as_taker_not_maker by simp
  have "determineTradeType fill_as_maker = ''BUY''"
    using determineTradeType_table [of fill_as_maker] fill_as_maker_is_maker
    by (simp add: fill_as_maker_def)
  moreover have "determineTradeType (fill_as_maker\<lparr>makerAssetId := ''77'', takerAssetId := ''0''\<rparr>) = ''SELL''"
    using determineTradeType_table [of "fill_as_maker\<lparr>makerAssetId := ''77'', takerAssetId := ''0''\<rparr>"] m
    by simp
  moreover have "determineTradeType fill_as_taker = ''SELL''"
    using determineTradeType_table [of fill_as_taker]
      fill_as_taker_is_taker fill_as_taker_not_maker
    by (simp add: fill_as_taker_def)
  moreover have "determineTradeType (fill_as_taker\<lparr>makerAssetId := ''0'', takerAssetId := ''77''\<rparr>) = ''BUY''"
    using determineTradeType_table [of "fill_as_taker\<lparr>makerAssetId := ''0'', takerAssetId := ''77''\<rparr>"] k
    by simp
  moreover have "determineTradeType fill_self_trade = ''BUY''"
  proof -
    have legs: "makerAssetId fill_self_trade = ''0''" "takerAssetId fill_self_trade \<noteq> ''0''"
      by (simp_all add: fill_self_trade_def)
    show ?thesis
      using determineTradeType_table [of fill_self_trade] fill_self_trade_both(2) legs
      by blast
  qed
  moreover have "determineTradeType (fill_self_trade\<lparr>makerAssetId := ''77'', takerAssetId := ''0''\<rparr>) = ''SELL''"
  proof -
    define f where "f = fill_self_trade\<lparr>makerAssetId := ''77'', takerAssetId := ''0''\<rparr>"
    have legs: "makerAssetId f \<noteq> ''0''" "takerAssetId f = ''0''"
      by (simp_all add: f_def)
    have "toLowerCase (taker f) = toLowerCase TARGET_ADDRESS"
      using fill_self_trade_both(2) by (simp add: f_def)
    then have "determineTradeType f = ''SELL''"
      using determineTradeType_table [of f] legs by blast
    then show ?thesis
      by (simp only: f_def)
  qed
  moreover have "determineTradeType fill_of_others = ''UNKNOWN''"
    using determineTradeType_table [of fill_of_others] fill_of_others_neither
    by simp
  ultimately show ?thesis by simp
qed

text \<open>
  C2, as stated, fails: the code never looks at the other leg. With the target as maker
  and an outcome token on both legs the result is SELL, not UNKNOWN.
\<close>

theorem determineTradeType_two_tokens_counterexample:
  "makerAssetId fill_two_tokens \<noteq> ''0'' \<and>
   takerAssetId fill_two_tokens \<noteq> ''0'' \<and>
   toLowerCase (maker fill_two_tokens) = toLowerCase TARGET_ADDRESS \<and>
   determineTradeType fill_two_tokens = ''SELL'' \<and>
   determineTradeType fill_two_tokens \<noteq> ''UNKNOWN''"
  by code_simp

text \<open>
  C2, amended: when both asset ids differ from the sentinel, the result is SELL if the
  target is the maker, BUY if the target is the taker and not the maker, and UNKNOWN only
  if the target is neither.
\<close>

theorem determineTradeType_two_tokens:
  "makerAssetId t \<noteq> ''0'' \<Longrightarrow> takerAssetId t \<noteq> ''0'' \<Longrightarrow>
   determineTradeType t =
     (if toLowerCase (maker t) = toLowerCase TARGET_ADDRESS then ''SELL''
      else if toLowerCase (taker t) = toLowerCase TARGET_ADDRESS then ''BUY''
      else ''UNKNOWN'')"
  by (simp add: determineTradeType_def Let_def)

theorem determineTradeType_two_tokens_witness:
  "makerAssetId fill_two_tokens \<noteq> ''0'' \<and> takerAssetId fill_two_tokens \<noteq> ''0'' \<and>
   determineTradeType fill_two_tokens = ''SELL''"
proof -
  have a: "makerAssetId fill_two_tokens \<noteq> ''0''" and b: "takerAssetId fill_two_tokens \<noteq> ''0''"
    by (simp_all add: fill_two_tokens_def)
  have m: "toLowerCase (maker fill_two_tokens) = toLowerCase TARGET_ADDRESS"
    by code_simp
  show ?thesis
    using determineTradeType_two_tokens [OF a b] a b m by simp
qed

section \<open>Properties of the order mirror\<close>

lemma mirrorTrade_missing:
  "\<not> truthy (td_asset d) \<or> \<not> truthy (td_side d) \<or> \<not> truthy (td_size d) \<or>
   \<not> truthy (td_price d) \<Longrightarrow>
   mirrorTrade c d =
     ([LogMissingFields (td_asset d) (td_side d) (td_size d) (td_price d)], None)"
  by (simp add: mirrorTrade_def Let_def)

lemma mirrorTrade_calls_createOrder:
  "truthy (td_asset d) \<Longrightarrow> truthy (td_side d) \<Longrightarrow> truthy (td_size d) \<Longrightarrow>
   truthy (td_price d) \<Longrightarrow>
   CallCreateOrder (orderParams d) \<in> set (fst (mirrorTrade c d))"
  by (simp add: mirrorTrade_def Let_def split: sum.splits option.splits)

lemma orderParams_side:
  "op_side (orderParams d) = (if td_side d = JStr ''BUY'' then BUY else SELL)"
  by (simp add: orderParams_def Let_def)

lemma orderParams_NaN:
  "(parseFloat (td_size d) = NaN \<longrightarrow> op_size (orderParams d) = NaN) \<and>
   (parseFloat (td_price d) = NaN \<longrightarrow> op_price (orderParams d) = NaN)"
  by (simp add: orderParams_def Let_def Math_max_def Math_min_def)

text \<open>
  C3, as stated, fails: the only check on \<open>side\<close> is that it is present. On the
  input of the specification's example, with side HOLD, both network calls are made, and
  the order goes out as a SELL.
\<close>

theorem mirrorTrade_hold_counterexample:
  "td_side hold_order \<noteq> JStr ''BUY'' \<and> td_side hold_order \<noteq> JStr ''SELL'' \<and>
   network_calls (fst (mirrorTrade accepting_client hold_order)) =
     [CallCreateOrder \<lparr>tokenID = JStr ''123'', op_side = SELL, op_size = Fin 5,
                        op_price = Fin (1 / 2), feeRateBps = Some (Fin 0)\<rparr>,
      CallPostOrder \<lparr>tokenID = JStr ''123'', op_side = SELL, op_size = Fin 5,
                      op_price = Fin (1 / 2), feeRateBps = Some (Fin 0)\<rparr> IOC]"
  by code_simp

text \<open>
  C3, amended: when \<open>side\<close> is missing or empty, \<open>mirrorTrade\<close> of the first program
  reports the missing fields and returns null with no network call. When all four fields
  are present, \<open>createOrder\<close> is called, with side BUY for the text BUY and side SELL
  for every other value.
\<close>

theorem mirrorTrade_side_check:
  "(\<not> truthy (td_side d) \<longrightarrow>
      fst (mirrorTrade c d) =
        [LogMissingFields (td_asset d) (td_side d) (td_size d) (td_price d)] \<and>
      network_calls (fst (mirrorTrade c d)) = [] \<and>
      snd (mirrorTrade c d) = None) \<and>
   (truthy (td_asset d) \<and> truthy (td_side d) \<and> truthy (td_size d) \<and> truthy (td_price d) \<longrightarrow>
      CallCreateOrder (orderParams d) \<in> set (fst (mirrorTrade c d)) \<and>
      op_side (orderParams d) = (if td_side d = JStr ''BUY'' then BUY else SELL))"
proof (intro conjI impI)
  assume "\<not> truthy (td_side d)"
  then have m: "mirrorTrade c d =
      ([LogMissingFields (td_asset d) (td_side d) (td_size d) (td_price d)], None)"
    by (intro mirrorTrade_missing) simp
  show "fst (mirrorTrade c d) =
      [LogMissingFields (td_asset d) (td_side d) (td_size d) (td_price d)]"
    by (simp add: m)
  show "network_calls (fst (mirrorTrade c d)) = []"
    by (simp add: m network_calls_def)
  show "snd (mirrorTrade c d) = None"
    by (simp add: m)
next
  assume "truthy (td_asset d) \<and> truthy (td_side d) \<and> truthy (td_size d) \<and> truthy (td_price d)"
  then show "CallCreateOrder (orderParams d) \<in> set (fst (mirrorTrade c d))"
    by (intro mirrorTrade_calls_createOrder) simp_all
next
  show "op_side (orderParams d) = (if td_side d = JStr ''BUY'' then BUY else SELL)"
    by (rule orderParams_side)
qed

theorem mirrorTrade_side_check_witness:
  "network_calls (fst (mirrorTrade accepting_client sideless_order)) = [] \<and>
   snd (mirrorTrade accepting_client sideless_order) = None \<and>
   CallCreateOrder (orderParams hold_order) \<in> set (fst (mirrorTrade accepting_client hold_order)) \<and>
   op_side (orderParams hold_order) = SELL"
proof -
  have absent: "\<not> truthy (td_side sideless_order)"
    by (simp add: sideless_order_def)
  have present: "truthy (td_asset hold_order) \<and> truthy (td_side hold_order) \<and>
      truthy (td_size hold_order) \<and> truthy (td_price hold_order)"
    by (simp add: hold_order_def)
  have other: "td_side hold_order \<noteq> JStr ''BUY''"
    by (simp add: hold_order_def)
  show ?thesis
    using mirrorTrade_side_check [of sideless_order accepting_client]
      mirrorTrade_side_check [of hold_order accepting_client] absent present other
    by (simp add: network_calls_def)
qed

text \<open>
  C4, as stated, fails: a field is only tested for presence. A size that is text but no
  number passes the test, is parsed to \<open>NaN\<close>, and both network calls are made.
\<close>

theorem mirrorTrade_nonnumeric_counterexample:
  "parseFloat (td_size nonnumeric_order) = NaN \<and>
   network_calls (fst (mirrorTrade accepting_client nonnumeric_order)) =
     [CallCreateOrder \<lparr>tokenID = JStr ''123'', op_side = BUY, op_size = NaN,
                        op_price = Fin (1 / 2), feeRateBps = Some (Fin 0)\<rparr>,
      CallPostOrder \<lparr>tokenID = JStr ''123'', op_side = BUY, op_size = NaN,
                      op_price = Fin (1 / 2), feeRateBps = Some (Fin 0)\<rparr> IOC]"
  by code_simp

text \<open>
  C4, amended: when asset, side, size or price is missing, empty, zero or \<open>NaN\<close>,
  \<open>mirrorTrade\<close> of the first program reports the missing fields and returns null, and
  that is all it does. When all four are present, \<open>createOrder\<close> is called; a size or
  price that \<open>parseFloat\<close> cannot read goes into the order as \<open>NaN\<close>.
\<close>

theorem mirrorTrade_presence_check:
  "(\<not> truthy (td_asset d) \<or> \<not> truthy (td_side d) \<or> \<not> truthy (td_size d) \<or>
    \<not> truthy (td_price d) \<longrightarrow>
      mirrorTrade c d =
        ([LogMissingFields (td_asset d) (td_side d) (td_size d) (td_price d)], None)) \<and>
   (truthy (td_asset d) \<and> truthy (td_side d) \<and> truthy (td_size d) \<and> truthy (td_price d) \<longrightarrow>
      CallCreateOrder (orderParams d) \<in> set (fst (mirrorTrade c d)) \<and>
      (parseFloat (td_size d) = NaN \<longrightarrow> op_size (orderParams d) = NaN) \<and>
      (parseFloat (td_price d) = NaN \<longrightarrow> op_price (orderParams d) = NaN))"
  using mirrorTrade_missing [of d c] mirrorTrade_calls_createOrder [of d c] orderParams_NaN [of d]
  by blast

theorem mirrorTrade_presence_check_witness:
  "mirrorTrade accepting_client sizeless_order =
     ([LogMissingFields (JStr ''123'') (JStr ''BUY'') (JStr []) (JStr ''0.5'')], None) \<and>
   CallCreateOrder (orderParams nonnumeric_order)
     \<in> set (fst (mirrorTrade accepting_client nonnumeric_order)) \<and>
   op_size (orderParams nonnumeric_order) = NaN \<and>
   op_price (orderParams (nonnumeric_order\<lparr>td_price := JStr ''n/a''\<rparr>)) = NaN"
proof -
  have absent: "\<not> truthy (td_size sizeless_order)"
    by (simp add: sizeless_order_def)
  have present: "truthy (td_asset nonnumeric_order) \<and> truthy (td_side nonnumeric_order) \<and>
      truthy (td_size nonnumeric_order) \<and> truthy (td_price nonnumeric_order)"
    by (simp add: nonnumeric_order_def)
  have unreadable: "parseFloat (td_size nonnumeric_order) = NaN"
    by code_simp
  have present': "truthy (td_asset (nonnumeric_order\<lparr>td_price := JStr ''n/a''\<rparr>)) \<and>
      truthy (td_side (nonnumeric_order\<lparr>td_price := JStr ''n/a''\<rparr>)) \<and>
      truthy (td_size (nonnumeric_order\<lparr>td_price := JStr ''n/a''\<rparr>)) \<and>
      truthy (td_price (nonnumeric_order\<lparr>td_price := JStr ''n/a''\<rparr>))"
    by (simp add: nonnumeric_order_def)
  have unreadable': "parseFloat (td_price (nonnumeric_order\<lparr>td_price := JStr ''n/a''\<rparr>)) = NaN"
    by code_simp
  have "mirrorTrade accepting_client sizeless_order =
      ([LogMissingFields (td_asset sizeless_order) (td_side sizeless_order)
          (td_size sizeless_order) (td_price sizeless_order)], None)"
    using mirrorTrade_presence_check [of sizeless_order accepting_client] absent by simp
  then have first: "mirrorTrade accepting_client sizeless_order =
      ([LogMissingFields (JStr ''123'') (JStr ''BUY'') (JStr []) (JStr ''0.5'')], None)"
    by (simp add: sizeless_order_def)
  have second: "CallCreateOrder (orderParams nonnumeric_order)
        \<in> set (fst (mirrorTrade accepting_client nonnumeric_order)) \<and>
      op_size (orderParams nonnumeric_order) = NaN"
    using mirrorTrade_presence_check [of nonnumeric_order accepting_client] present unreadable
    by blast
  have third: "op_price (orderParams (nonnumeric_order\<lparr>td_price := JStr ''n/a''\<rparr>)) = NaN"
    using mirrorTrade_presence_check
      [of "nonnumeric_order\<lparr>td_price := JStr ''n/a''\<rparr>" accepting_client] present' unreadable'
    by blast
  show ?thesis
    using first second third by blast
qed

subsection \<open>Price and size normalisation\<close>

text \<open>Rounding to a grid of \<open>n\<close> steps per unit moves a number by at most half a
  step.\<close>

lemma round_to_grid_nearest:
  fixes x n :: rat
  assumes "0 < n"
  shows "\<bar>of_int \<lfloor>x * n + 1 / 2\<rfloor> / n - x\<bar> \<le> 1 / (2 * n)"
proof -
  let ?k = "of_int \<lfloor>x * n + 1 / 2\<rfloor> :: rat"
  have lo: "x * n + 1 / 2 - 1 < ?k" and hi: "?k \<le> x * n + 1 / 2"
    by linarith+
  then have near: "\<bar>?k - x * n\<bar> \<le> 1 / 2"
    by linarith
  have "?k / n - x = (?k - x * n) / n"
    using assms by (simp add: field_simps)
  then have "\<bar>?k / n - x\<bar> = \<bar>?k - x * n\<bar> / n"
    using assms by (simp add: abs_divide)
  also have "\<dots> \<le> (1 / 2) / n"
    using near assms by (intro divide_right_mono) auto
  also have "(1 / 2) / n = 1 / (2 * n)"
    by simp
  finally show ?thesis .
qed

lemma Math_min_Fin: "Math_min (Fin a) (Fin b) = Fin (min a b)"
  by (auto simp: Math_min_def min_def)

lemma Math_max_Fin: "Math_max (Fin a) (Fin b) = Fin (max a b)"
  by (auto simp: Math_max_def max_def)

text \<open>
  The first program submits the parsed price rounded to the nearest thousandth (a tie goes
  up) and then clamped to the range from 0.01 to 0.99, and the parsed size rounded to the
  nearest hundredth. This is the statement of C5 for that program, over exact arithmetic.
\<close>

lemma orderParams_price:
  "parseFloat (td_price d) = Fin p \<Longrightarrow>
   op_price (orderParams d) =
     Fin (max (1 / 100) (min (99 / 100) (of_int \<lfloor>p * 1000 + 1 / 2\<rfloor> / 1000)))"
  by (simp add: orderParams_def Let_def Math_max_Fin Math_min_Fin)

lemma orderParams_size:
  "parseFloat (td_size d) = Fin s \<Longrightarrow>
   op_size (orderParams d) = Fin (of_int \<lfloor>s * 100 + 1 / 2\<rfloor> / 100)"
  by (simp add: orderParams_def Let_def)

text \<open>The submitted price is on the grid of thousandths and inside the range; for a
  price inside the range it is the nearest grid point.\<close>

lemma clamp_thousandths:
  fixes y :: rat
  shows "y < 10 \<Longrightarrow> max (1 / 100) (min (99 / 100) (y / 1000)) = 10 / 1000"
    and "10 \<le> y \<Longrightarrow> y \<le> 990 \<Longrightarrow> max (1 / 100) (min (99 / 100) (y / 1000)) = y / 1000"
    and "990 < y \<Longrightarrow> max (1 / 100) (min (99 / 100) (y / 1000)) = 990 / 1000"
  by (simp_all add: max_def min_def)

lemma orderParams_price_on_grid:
  assumes "parseFloat (td_price d) = Fin p"
  shows "\<exists>k :: int. op_price (orderParams d) = Fin (of_int k / 1000) \<and> 10 \<le> k \<and> k \<le> 990"
proof -
  let ?k = "\<lfloor>p * 1000 + 1 / 2\<rfloor>"
  have price: "op_price (orderParams d) =
      Fin (max (1 / 100) (min (99 / 100) (of_int ?k / 1000)))"
    using assms by (rule orderParams_price)
  consider "?k < 10" | "10 \<le> ?k" "?k \<le> 990" | "990 < ?k"
    by linarith
  then show ?thesis
  proof cases
    case 1
    then have "(of_int ?k :: rat) < 10"
      by linarith
    then have "max (1 / 100) (min (99 / 100) (of_int ?k / 1000 :: rat)) = of_int 10 / 1000"
      using clamp_thousandths(1) [of "of_int ?k"] by simp
    then show ?thesis
      using price by (intro exI [of _ 10]) simp
  next
    case 2
    then have "10 \<le> (of_int ?k :: rat)" "(of_int ?k :: rat) \<le> 990"
      by linarith+
    then have "max (1 / 100) (min (99 / 100) (of_int ?k / 1000 :: rat)) = of_int ?k / 1000"
      by (rule clamp_thousandths(2))
    then show ?thesis
      using price 2 by (intro exI [of _ ?k]) simp
  next
    case 3
    then have "990 < (of_int ?k :: rat)"
      by linarith
    then have "max (1 / 100) (min (99 / 100) (of_int ?k / 1000 :: rat)) = of_int 990 / 1000"
      using clamp_thousandths(3) [of "of_int ?k"] by simp
    then show ?thesis
      using price by (intro exI [of _ 990]) simp
  qed
qed

lemma orderParams_price_nearest:
  assumes "parseFloat (td_price d) = Fin p" "1 / 100 \<le> p" "p \<le> 99 / 100"
  shows "\<exists>q. op_price (orderParams d) = Fin q \<and> \<bar>q - p\<bar> \<le> 1 / 2000"
proof -
  let ?k = "\<lfloor>p * 1000 + 1 / 2\<rfloor>"
  have "10 \<le> ?k"
    using assms(2) by (simp add: le_floor_iff)
  moreover have "?k \<le> 990"
    using assms(3) by (simp add: floor_le_iff)
  ultimately have "10 \<le> (of_int ?k :: rat)" "(of_int ?k :: rat) \<le> 990"
    by linarith+
  then have "max (1 / 100) (min (99 / 100) (of_int ?k / 1000 :: rat)) = of_int ?k / 1000"
    by (rule clamp_thousandths(2))
  then have "op_price (orderParams d) = Fin (of_int ?k / 1000)"
    using orderParams_price [OF assms(1)] by simp
  moreover have "\<bar>of_int ?k / 1000 - p\<bar> \<le> 1 / 2000"
    using round_to_grid_nearest [of 1000 p] by simp
  ultimately show ?thesis
    by blast
qed

lemma orderParams_examples:
  "op_price (orderParams (buy_order\<lparr>td_price := JStr ''0.4567''\<rparr>)) = Fin (457 / 1000)"
  "op_price (orderParams (buy_order\<lparr>td_price := JStr ''1.2''\<rparr>)) = Fin (99 / 100)"
  "op_price (orderParams (buy_order\<lparr>td_price := JStr ''-0.01''\<rparr>)) = Fin (1 / 100)"
  "op_price (orderParams (buy_order\<lparr>td_price := JStr ''0.4565''\<rparr>)) = Fin (457 / 1000)"
  "op_size (orderParams (buy_order\<lparr>td_size := JStr ''5.129''\<rparr>)) = Fin (513 / 100)"
  by code_simp+

text \<open>
  C5 holds of the first program and fails on the second, which has no rounding and no clamp:
  its \<open>mirrorTrade\<close> submits the price 1.2 as 1.2, where C5 asks for 0.99, and the
  size 5.129 as 5.129, where C5 asks for 5.13.
\<close>

theorem mirrorTrade2_submits_unrounded:
  "network_calls (fst (mirrorTrade2 accepting_client overpriced_order)) =
     [CallCreateOrder \<lparr>tokenID = JStr ''123'', op_side = BUY, op_size = Fin (5129 / 1000),
                        op_price = Fin (6 / 5), feeRateBps = None\<rparr>,
      CallPostOrder \<lparr>tokenID = JStr ''123'', op_side = BUY, op_size = Fin (5129 / 1000),
                      op_price = Fin (6 / 5), feeRateBps = None\<rparr> GTC]"
  by code_simp

subsection \<open>Reporting the outcome\<close>

text \<open>
  The first program reports by the success flag of the result: executed when the flag is
  truthy, failed when it is false or absent. This is the statement of C9 for that program.
\<close>

lemma mirrorTrade_reports_by_flag:
  assumes "truthy (td_asset d)" "truthy (td_side d)" "truthy (td_size d)" "truthy (td_price d)"
    and "createOrder c (orderParams d) = Inr order"
    and "postOrder c order IOC = Inr (Some r)"
  shows "(LogOrderExecuted r \<in> set (fst (mirrorTrade c d)) \<longleftrightarrow> truthy (success r)) \<and>
         (LogOrderFailed r \<in> set (fst (mirrorTrade c d)) \<longleftrightarrow> \<not> truthy (success r))"
  using assms by (simp add: mirrorTrade_def Let_def)

lemma mirrorTrade_reports_failure_example:
  "fst (mirrorTrade rejecting_client buy_order) =
     [LogMirroring (JStr ''123'') (JStr ''BUY'') (JStr ''5'') (JStr ''0.4567''),
      LogCreatingOrder (orderParams buy_order), CallCreateOrder (orderParams buy_order),
      LogPostingOrder (orderParams buy_order), CallPostOrder (orderParams buy_order) IOC,
      LogOrderFailed error_result]"
  by (simp add: mirrorTrade_def Let_def rejecting_client_def buy_order_def error_result_def)

text \<open>
  C9 holds of the first program and fails on the second, which never reads the success flag:
  for a result with no success flag its \<open>mirrorTrade\<close> prints that the order was
  placed successfully, and prints no failure.
\<close>

theorem mirrorTrade2_reports_success_without_flag:
  "success error_result = JUndefined \<and>
   fst (mirrorTrade2 rejecting_client buy_order) =
     [LogMirroring (JStr ''123'') (JStr ''BUY'') (JStr ''5'') (JStr ''0.4567''),
      LogCreatingOrder (orderParams2 buy_order), CallCreateOrder (orderParams2 buy_order),
      LogPostingOrder (orderParams2 buy_order), CallPostOrder (orderParams2 buy_order) GTC,
      LogOrderPlaced, LogOrderIdStatus (JStr ''N/A'') (JNum (Fin 400))] \<and>
   snd (mirrorTrade2 rejecting_client buy_order) = Some error_result"
  by (simp add: mirrorTrade2_def Let_def rejecting_client_def buy_order_def error_result_def
      js_or_def)

section \<open>Properties of the poller\<close>

subsection \<open>The loop over the trades\<close>

lemma events_Cons:
  "fst (process_trades w (t # ts) seen) =
     (if Set_has seen (tradeId t) then Skip (tradeId t) # fst (process_trades w ts seen)
      else if timestamp t < w - 5
        then Add (tradeId t) # fst (process_trades w ts (Set_add seen (tradeId t)))
        else Add (tradeId t) # LogTrade t #
               fst (process_trades w ts (Set_add seen (tradeId t))))"
  by (simp add: split_beta)

lemma ledger_Cons:
  "snd (process_trades w (t # ts) seen) =
     (if Set_has seen (tradeId t) then snd (process_trades w ts seen)
      else snd (process_trades w ts (Set_add seen (tradeId t))))"
  by (simp add: split_beta)

lemma process_trades_set:
  "set (snd (process_trades w ts seen)) = set seen \<union> tradeId ` set ts"
  by (induction ts arbitrary: seen)
     (auto simp: ledger_Cons Set_has_def Set_add_def simp del: process_trades.simps(2))

lemma process_trades_distinct:
  "distinct seen \<Longrightarrow> distinct (snd (process_trades w ts seen))"
  by (induction ts arbitrary: seen)
     (auto simp: ledger_Cons Set_has_def Set_add_def simp del: process_trades.simps(2))

lemma process_trades_length:
  "length (snd (process_trades w ts seen)) \<le> length seen + length ts"
proof (induction ts arbitrary: seen)
  case Nil
  show ?case by simp
next
  case (Cons t ts)
  have "length (snd (process_trades w ts (Set_add seen (tradeId t))))
          \<le> length (Set_add seen (tradeId t)) + length ts"
    using Cons.IH .
  moreover have "length (Set_add seen (tradeId t)) \<le> Suc (length seen)"
    by (simp add: Set_add_def)
  ultimately show ?case
    using Cons.IH [of seen] by (simp add: ledger_Cons del: process_trades.simps(2))
qed

text \<open>A trade handed to the mirror was in the page, inside the tolerance window, and its
  id was not in the ledger before.\<close>

lemma process_trades_mirrored:
  "t \<in> set (mirrored (fst (process_trades w ts seen))) \<Longrightarrow>
   t \<in> set ts \<and> w - 5 \<le> timestamp t \<and> tradeId t \<notin> set seen"
proof (induction ts arbitrary: seen)
  case Nil
  then show ?case by simp
next
  case (Cons a ts)
  show ?case
    using Cons.prems Cons.IH [of seen] Cons.IH [of "Set_add seen (tradeId a)"]
    by (auto simp: events_Cons Set_has_def Set_add_def simp del: process_trades.simps(2)
             split: if_splits)
qed

lemma process_trades_seen_not_mirrored:
  "x \<in> set seen \<Longrightarrow>
   filter (\<lambda>t. tradeId t = x) (mirrored (fst (process_trades w ts seen))) = []"
  using process_trades_mirrored [of _ w ts seen] by (auto simp: filter_empty_conv)

lemma process_trades_count_Add:
  "count_list (fst (process_trades w ts seen)) (Add x) =
     (if x \<notin> set seen \<and> x \<in> tradeId ` set ts then 1 else 0)"
  by (induction ts arbitrary: seen)
     (auto simp: events_Cons Set_has_def Set_add_def simp del: process_trades.simps(2))




text \<open>
  On a page sorted newest first, a trade inside the window whose id is not in the ledger
  has its id mirrored exactly once: the first entry with that id is at least as new, so
  it is inside the window too, and every later entry with that id finds the id present.
\<close>

lemma process_trades_fresh_once:
  "sorted (map (\<lambda>t. - timestamp t) ts) \<Longrightarrow> r \<in> set ts \<Longrightarrow> w - 5 \<le> timestamp r \<Longrightarrow>
   tradeId r \<notin> set seen \<Longrightarrow>
   length (filter (\<lambda>t. tradeId t = tradeId r) (mirrored (fst (process_trades w ts seen)))) = 1"
proof (induction ts arbitrary: seen)
  case Nil
  then show ?case by simp
next
  case (Cons a ts)
  show ?case
  proof (cases "tradeId a = tradeId r")
    case True
    have "timestamp r \<le> timestamp a"
      using Cons.prems(1,2) by auto
    then have inside: "\<not> timestamp a < w - 5"
      using Cons.prems(3) by simp
    have "tradeId r \<in> set (Set_add seen (tradeId a))"
      using True by (simp add: Set_add_def)
    then have "filter (\<lambda>t. tradeId t = tradeId r)
                 (mirrored (fst (process_trades w ts (Set_add seen (tradeId a))))) = []"
      by (rule process_trades_seen_not_mirrored)
    then show ?thesis
      using True inside Cons.prems(4)
      by (simp add: events_Cons Set_has_def del: process_trades.simps(2))
  next
    case False
    then have r: "r \<in> set ts"
      using Cons.prems(2) by auto
    have s: "sorted (map (\<lambda>t. - timestamp t) ts)"
      using Cons.prems(1) by simp
    have n: "tradeId r \<notin> set (Set_add seen (tradeId a))"
      using False Cons.prems(4) by (simp add: Set_add_def)
    show ?thesis
      using False Cons.IH [OF s r Cons.prems(3) Cons.prems(4)]
        Cons.IH [OF s r Cons.prems(3) n]
      by (simp add: events_Cons del: process_trades.simps(2))
  qed
qed

subsection \<open>Sorting\<close>

lemma sort_desc_set: "set (sort_desc ts) = set ts"
  by (simp add: sort_desc_def)

lemma sort_desc_sorted: "sorted (map (\<lambda>t. - timestamp t) (sort_desc ts))"
  by (simp add: sort_desc_def)

lemma sort_desc_length: "length (sort_desc ts) = length ts"
  by (simp add: sort_desc_def)


lemma sorted_desc_hd_Max:
  assumes "sorted (map (\<lambda>t. - timestamp t) (a # ts))"
  shows "timestamp a = Max (timestamp ` set (a # ts))"
proof -
  have "\<forall>t \<in> set (a # ts). timestamp t \<le> timestamp a"
    using assms by auto
  then show ?thesis
    by (intro Max_eqI [symmetric]) auto
qed

subsection \<open>The clean-up\<close>

lemma fold_delete_prefix:
  "distinct (xs @ ys) \<Longrightarrow> fold (\<lambda>id s. Set_delete s id) xs (xs @ ys) = ys"
proof (induction xs)
  case Nil
  show ?case by simp
next
  case (Cons x xs)
  then have "Set_delete ((x # xs) @ ys) x = xs @ ys"
    by (simp add: Set_delete_def)
  then show ?case
    using Cons by simp
qed

lemma fold_delete_take:
  assumes "distinct s"
  shows "fold (\<lambda>id s. Set_delete s id) (take n s) s = drop n s"
  using fold_delete_prefix [of "take n s" "drop n s"] assms by simp

lemma fold_delete_set:
  "set (fold (\<lambda>id s. Set_delete s id) xs s) = set s - set xs"
  by (induction xs arbitrary: s) (auto simp: Set_delete_def)

lemma compact_events:
  "fst (compact s) = (if length s > 10000 then map Delete (take 5000 s) else [])"
  by (simp add: compact_def Let_def)

lemma compact_set:
  "set (snd (compact s)) = (if length s > 10000 then set s - set (take 5000 s) else set s)"
  by (simp add: compact_def Let_def fold_delete_set)

lemma compact_drop:
  "distinct s \<Longrightarrow> snd (compact s) = (if length s > 10000 then drop 5000 s else s)"
  by (simp add: compact_def Let_def fold_delete_take)


lemma compact_member:
  "x \<in> set s \<Longrightarrow> x \<in> set (snd (compact s)) \<or> Delete x \<in> set (fst (compact s))"
  by (auto simp: compact_events compact_set split: if_splits)




lemma compact_no_Add: "count_list (fst (compact s)) (Add x) = 0"
  by (auto simp: compact_events count_list_0_iff)


lemma mirrored_append: "mirrored (xs @ ys) = mirrored xs @ mirrored ys"
  by (induction xs rule: mirrored.induct) auto

lemma mirrored_Delete: "mirrored (map Delete xs) = []"
  by (induction xs) auto

lemma compact_mirrored: "mirrored (fst (compact s)) = []"
  by (simp add: compact_events mirrored_Delete)

subsection \<open>One poll cycle\<close>

lemma poll_events:
  "fst (pollForTrades r st) =
     fst (process_trades (lastTimestamp st) (sort_desc (fetchTargetActivity r)) (seenTrades st)) @
     fst (compact (snd (process_trades (lastTimestamp st) (sort_desc (fetchTargetActivity r))
                          (seenTrades st))))"
  by (simp add: pollForTrades_def Let_def split_beta)

lemma poll_ledger:
  "seenTrades (snd (pollForTrades r st)) =
     snd (compact (snd (process_trades (lastTimestamp st) (sort_desc (fetchTargetActivity r))
                          (seenTrades st))))"
  by (simp add: pollForTrades_def Let_def split_beta)

lemma poll_watermark:
  "lastTimestamp (snd (pollForTrades r st)) =
     (case sort_desc (fetchTargetActivity r) of
        [] \<Rightarrow> lastTimestamp st
      | newest # others \<Rightarrow>
          if timestamp newest > lastTimestamp st then timestamp newest else lastTimestamp st)"
  by (simp add: pollForTrades_def Let_def split_beta)

lemma poll_watermark_Max:
  "lastTimestamp (snd (pollForTrades r st)) =
     (if fetchTargetActivity r = [] then lastTimestamp st
      else max (lastTimestamp st) (Max (timestamp ` set (fetchTargetActivity r))))"
proof (cases "sort_desc (fetchTargetActivity r)")
  case Nil
  then have "set (fetchTargetActivity r) = {}"
    using sort_desc_set [of "fetchTargetActivity r"] by simp
  then show ?thesis
    using Nil by (simp add: poll_watermark)
next
  case (Cons a ts)
  have "sorted (map (\<lambda>t. - timestamp t) (a # ts))"
    using sort_desc_sorted [of "fetchTargetActivity r"] Cons by simp
  then have "timestamp a = Max (timestamp ` set (a # ts))"
    by (rule sorted_desc_hd_Max)
  moreover have "set (a # ts) = set (fetchTargetActivity r)"
    using sort_desc_set [of "fetchTargetActivity r"] Cons by simp
  ultimately have newest: "timestamp a = Max (timestamp ` set (fetchTargetActivity r))"
    by (simp only:)
  have "fetchTargetActivity r \<noteq> []"
    using Cons sort_desc_length [of "fetchTargetActivity r"] by auto
  then show ?thesis
    using Cons newest by (simp add: poll_watermark max_def)
qed

lemma poll_mirrored:
  "mirrored (fst (pollForTrades r st)) =
     mirrored (fst (process_trades (lastTimestamp st) (sort_desc (fetchTargetActivity r))
                      (seenTrades st)))"
  by (simp add: poll_events mirrored_append compact_mirrored)

lemma poll_count_Add:
  "count_list (fst (pollForTrades r st)) (Add x) =
     (if x \<notin> set (seenTrades st) \<and> x \<in> tradeId ` set (fetchTargetActivity r) then 1 else 0)"
  by (simp add: poll_events process_trades_count_Add compact_no_Add sort_desc_set)





lemma poll_seen_not_mirrored:
  "x \<in> set (seenTrades st) \<Longrightarrow>
   filter (\<lambda>t. tradeId t = x) (mirrored (fst (pollForTrades r st))) = []"
  by (simp add: poll_mirrored process_trades_seen_not_mirrored)

lemma poll_distinct:
  "distinct (seenTrades st) \<Longrightarrow> distinct (seenTrades (snd (pollForTrades r st)))"
  by (simp add: poll_ledger compact_drop process_trades_distinct)

lemma poll_length:
  assumes "distinct (seenTrades st)" "length (seenTrades st) \<le> 10000"
    "length (fetchTargetActivity r) \<le> 5000"
  shows "length (seenTrades (snd (pollForTrades r st))) \<le> 10000"
proof -
  let ?s = "snd (process_trades (lastTimestamp st) (sort_desc (fetchTargetActivity r))
                   (seenTrades st))"
  have d: "distinct ?s"
    using assms(1) by (rule process_trades_distinct)
  have "length ?s \<le> length (seenTrades st) + length (sort_desc (fetchTargetActivity r))"
    by (rule process_trades_length)
  then have "length ?s \<le> 15000"
    using assms(2,3) by (simp add: sort_desc_length)
  then have "length (if length ?s > 10000 then drop 5000 ?s else ?s) \<le> 10000"
    by (cases "length ?s > 10000") simp_all
  then show ?thesis
    by (simp only: poll_ledger compact_drop [OF d])
qed

subsection \<open>Runs of cycles\<close>

lemma poll_run_Cons_set:
  "set (poll_run (r # rs) st) =
     insert (pollForTrades r st) (set (poll_run rs (snd (pollForTrades r st))))"
  by (simp add: split_beta)








lemma run_bounded:
  "distinct (seenTrades st) \<Longrightarrow> length (seenTrades st) \<le> 10000 \<Longrightarrow>
   \<forall>r \<in> set rs. length (fetchTargetActivity r) \<le> 5000 \<Longrightarrow>
   \<forall>c \<in> set (poll_run rs st).
      distinct (seenTrades (snd c)) \<and> length (seenTrades (snd c)) \<le> 10000"
proof (induction rs arbitrary: st)
  case Nil
  show ?case by simp
next
  case (Cons r rs)
  let ?c = "pollForTrades r st"
  have d: "distinct (seenTrades (snd ?c))"
    using Cons.prems(1) by (rule poll_distinct)
  have l: "length (seenTrades (snd ?c)) \<le> 10000"
    using Cons.prems by (intro poll_length) auto
  have "\<forall>r \<in> set rs. length (fetchTargetActivity r) \<le> 5000"
    using Cons.prems(3) by simp
  from Cons.IH [OF d l this] d l show ?case
    by (simp add: poll_run_Cons_set del: poll_run.simps)
qed

subsection \<open>Facts about the concrete inputs\<close>

lemma numbered_ids_distinct: "distinct (numbered_ids n)"
proof -
  have "inj_on (\<lambda>k. replicate k CHR ''x'') A" for A :: "nat set"
    by (rule inj_onI) (metis length_replicate)
  then show ?thesis
    by (simp add: numbered_ids_def distinct_map)
qed

lemma numbered_ids_length: "length (numbered_ids n) = n"
  by (simp add: numbered_ids_def)

lemma first_cycle:
  "pollForTrades response0 state0 =
     ([Add ''0xaa-123'', LogTrade trade_new, Add ''0xbb-456''], state1)"
  by code_simp

lemma second_cycle:
  "pollForTrades response1 state1 =
     ([Skip ''0xbb-456'', Skip ''0xaa-123''],
      \<lparr>seenTrades = [''0xaa-123'', ''0xbb-456''], lastTimestamp = 1010\<rparr>)"
  by code_simp

subsection \<open>The dedup ledger admits an id once\<close>



subsection \<open>The ledger in insertion order\<close>

lemma ledger_added:
  "snd (process_trades w ts seen) = seen @ added (fst (process_trades w ts seen))"
  by (induction ts arbitrary: seen)
     (auto simp: events_Cons ledger_Cons Set_has_def Set_add_def simp del: process_trades.simps(2))

lemma added_append: "added (xs @ ys) = added xs @ added ys"
  by (induction xs rule: added.induct) auto

lemma added_Delete: "added (map Delete xs) = []"
  by (induction xs) auto

lemma deleted_append: "deleted (xs @ ys) = deleted xs @ deleted ys"
  by (induction xs rule: deleted.induct) auto

lemma deleted_Delete: "deleted (map Delete xs) = xs"
  by (induction xs) auto

lemma process_trades_deleted: "deleted (fst (process_trades w ts seen)) = []"
  by (induction ts arbitrary: seen)
     (auto simp: events_Cons simp del: process_trades.simps(2))

lemma poll_added:
  "added (fst (pollForTrades r st)) =
     added (fst (process_trades (lastTimestamp st) (sort_desc (fetchTargetActivity r)) (seenTrades st)))"
  by (simp add: poll_events added_append compact_events added_Delete)

lemma poll_insertion_order:
  "seenTrades st @ added (fst (pollForTrades r st)) =
     snd (process_trades (lastTimestamp st) (sort_desc (fetchTargetActivity r)) (seenTrades st))"
  by (simp add: poll_added ledger_added [symmetric])

text \<open>The ledger before a cycle followed by the ids the cycle added is the set as it
  stands when the loop ends. The clean-up works on that list.\<close>

lemma poll_ledger_exact:
  fixes st :: poll_state and r :: fetch_response
  assumes "distinct (seenTrades st)"
  defines "L \<equiv> seenTrades st @ added (fst (pollForTrades r st))"
  shows "distinct L"
    and "set (added (fst (pollForTrades r st))) =
           tradeId ` set (fetchTargetActivity r) - set (seenTrades st)"
    and "seenTrades (snd (pollForTrades r st)) = (if length L > 10000 then drop 5000 L else L)"
    and "deleted (fst (pollForTrades r st)) = (if length L > 10000 then take 5000 L else [])"
    and "length L > 10000 \<Longrightarrow>
           drop (length (fst (pollForTrades r st)) - 5000) (fst (pollForTrades r st)) =
             map Delete (take 5000 L)"
proof -
  let ?loop = "process_trades (lastTimestamp st) (sort_desc (fetchTargetActivity r)) (seenTrades st)"
  have L: "L = snd ?loop"
    unfolding L_def by (rule poll_insertion_order)
  show d: "distinct L"
    unfolding L using assms(1) by (rule process_trades_distinct)
  have "set L = set (seenTrades st) \<union> tradeId ` set (fetchTargetActivity r)"
    unfolding L by (simp add: process_trades_set sort_desc_set)
  moreover have "set (seenTrades st) \<inter> set (added (fst (pollForTrades r st))) = {}"
    using d unfolding L_def by simp
  ultimately show "set (added (fst (pollForTrades r st))) =
      tradeId ` set (fetchTargetActivity r) - set (seenTrades st)"
    unfolding L_def by auto
  show "seenTrades (snd (pollForTrades r st)) = (if length L > 10000 then drop 5000 L else L)"
    using d unfolding L by (simp add: poll_ledger compact_drop)
  show "deleted (fst (pollForTrades r st)) = (if length L > 10000 then take 5000 L else [])"
    unfolding L
    by (simp add: poll_events deleted_append process_trades_deleted compact_events deleted_Delete)
  show "drop (length (fst (pollForTrades r st)) - 5000) (fst (pollForTrades r st)) =
      map Delete (take 5000 L)" if "length L > 10000"
    using that unfolding L by (simp add: poll_events compact_events)
qed

lemma poll_peak_length:
  assumes "distinct (seenTrades st)"
  shows "length (seenTrades st @ added (fst (pollForTrades r st))) =
         length (seenTrades st) + card (tradeId ` set (fetchTargetActivity r) - set (seenTrades st))"
proof -
  have "distinct (added (fst (pollForTrades r st)))"
    using poll_ledger_exact(1) [OF assms, of r] by simp
  then have "length (added (fst (pollForTrades r st))) = card (set (added (fst (pollForTrades r st))))"
    by (simp add: distinct_card)
  then show ?thesis
    by (simp add: poll_ledger_exact(2) [OF assms])
qed

lemma poll_length_exact:
  assumes "distinct (seenTrades st)"
    and "length (seenTrades st @ added (fst (pollForTrades r st))) = n"
  shows "length (seenTrades (snd (pollForTrades r st))) = (if 10000 < n then n - 5000 else n)"
    and "length (deleted (fst (pollForTrades r st))) = (if 10000 < n then 5000 else 0)"
proof -
  define L where "L = seenTrades st @ added (fst (pollForTrades r st))"
  have n: "length L = n"
    using assms(2) by (simp only: L_def)
  have "seenTrades (snd (pollForTrades r st)) = (if length L > 10000 then drop 5000 L else L)"
    and "deleted (fst (pollForTrades r st)) = (if length L > 10000 then take 5000 L else [])"
    unfolding L_def using poll_ledger_exact(3,4) [OF assms(1), of r] by blast+
  then show "length (seenTrades (snd (pollForTrades r st))) = (if 10000 < n then n - 5000 else n)"
    and "length (deleted (fst (pollForTrades r st))) = (if 10000 < n then 5000 else 0)"
    using n by auto
qed

subsection \<open>A full ledger\<close>

lemma tradeId_dash: "CHR ''-'' \<in> set (tradeId t)"
  by (simp add: tradeId_def)

lemma numbered_ids_no_dash: "s \<in> set (numbered_ids n) \<Longrightarrow> CHR ''-'' \<notin> set s"
  by (auto simp: numbered_ids_def)

lemma tradeId_not_numbered: "tradeId t \<notin> set (numbered_ids n)"
  using tradeId_dash [of t] numbered_ids_no_dash [of "tradeId t" n] by blast

lemma new_ids_full_state:
  "tradeId ` set ts - set (seenTrades full_state) = tradeId ` set ts"
  using tradeId_not_numbered by (auto simp: full_state_def)

lemma fetch_big_response: "fetchTargetActivity big_response = numbered_trades 5001"
  by (simp add: fetchTargetActivity_def big_response_def numbered_trades_def filter_map o_def)

lemma numbered_trades_ids:
  "map tradeId (numbered_trades n) = map (\<lambda>k. replicate k CHR ''y'' @ ''-1'') [0..<n]"
  by (simp add: numbered_trades_def tradeId_def)

lemma numbered_trades_card: "card (tradeId ` set (numbered_trades n)) = n"
proof -
  have "inj_on (\<lambda>k. replicate k CHR ''y'' @ ''-1'') A" for A :: "nat set"
    by (rule inj_onI) (metis append_same_eq length_replicate)
  then have "distinct (map tradeId (numbered_trades n))"
    by (simp add: numbered_trades_ids distinct_map)
  then have "card (set (map tradeId (numbered_trades n))) = length (map tradeId (numbered_trades n))"
    by (rule distinct_card)
  then show ?thesis
    by (simp only: set_map length_map) (simp add: numbered_trades_def)
qed

lemma full_state_ledger:
  "distinct (seenTrades full_state)" "length (seenTrades full_state) = 10000"
  by (simp_all add: full_state_def numbered_ids_distinct numbered_ids_length)

lemma peak_big:
  "length (seenTrades full_state @ added (fst (pollForTrades big_response full_state))) = 15001"
  by (simp only: poll_peak_length [OF full_state_ledger(1)] new_ids_full_state
        fetch_big_response numbered_trades_card full_state_ledger(2))

lemma card_response0: "card (tradeId ` set (fetchTargetActivity response0)) = 2"
  by code_simp

lemma card_response_one: "card (tradeId ` set (fetchTargetActivity response_one)) = 1"
  by code_simp

lemma peak_response0:
  "length (seenTrades full_state @ added (fst (pollForTrades response0 full_state))) = 10002"
  by (simp only: poll_peak_length [OF full_state_ledger(1)] new_ids_full_state
        card_response0 full_state_ledger(2))

lemma peak_response_one:
  "length (seenTrades full_state @ added (fst (pollForTrades response_one full_state))) = 10001"
  by (simp only: poll_peak_length [OF full_state_ledger(1)] new_ids_full_state
        card_response_one full_state_ledger(2))


subsection \<open>The ledger is bounded\<close>

text \<open>
  C7, as stated, fails: the ledger does exceed 10000 ids. The clean-up runs once, after
  the loop, and deletes 5000 ids whatever the size. A page of 5001 new trades on a ledger
  of 10000 ids leaves 10001 ids after the cycle. A page with two new trades on the same
  ledger brings it to 10002 ids inside the cycle, before the clean-up deletes 5000 and
  leaves 5002.
\<close>

theorem seenTrades_capacity_counterexample:
  "distinct (seenTrades full_state) \<and> length (seenTrades full_state) = 10000 \<and>
   length (seenTrades (snd (pollForTrades big_response full_state))) = 10001 \<and>
   length (seenTrades full_state @ added (fst (pollForTrades response0 full_state))) = 10002 \<and>
   length (deleted (fst (pollForTrades response0 full_state))) = 5000 \<and>
   length (seenTrades (snd (pollForTrades response0 full_state))) = 5002"
  using full_state_ledger peak_response0
    poll_length_exact [OF full_state_ledger(1) peak_big]
    poll_length_exact [OF full_state_ledger(1) peak_response0]
  by simp

text \<open>
  C7, amended: let \<open>L\<close> be the ledger at the start of a poll cycle followed by the ids
  the cycle added, in insertion order; the added ids are the ids of the fetched trades
  that were not in the ledger. If \<open>L\<close> has more than 10000 ids, the cycle ends with one
  batch of deletions, of the 5000 oldest ids of \<open>L\<close> in order, and the ledger after the
  cycle is the rest of \<open>L\<close>, the most recently inserted ids; otherwise nothing is
  deleted and the ledger is \<open>L\<close>. At 10001 ids that leaves 5001, the upper half of
  10001. With at most 10000 ids at the start and pages of at most 5000 trades (the
  request asks for 200, or 100 in the second program), the ledger holds at most 10000 ids
  after every poll cycle of a run.
\<close>


theorem seenTrades_capacity:
  "(distinct (seenTrades st) \<longrightarrow>
      (let evs = fst (pollForTrades r st);
           kept = seenTrades (snd (pollForTrades r st));
           L = seenTrades st @ added evs
       in distinct L \<and>
          set (added evs) = tradeId ` set (fetchTargetActivity r) - set (seenTrades st) \<and>
          kept = (if 10000 < length L then drop 5000 L else L) \<and>
          deleted evs = (if 10000 < length L then take 5000 L else []) \<and>
          (10000 < length L \<longrightarrow> drop (length evs - 5000) evs = map Delete (take 5000 L)) \<and>
          (length L = 10001 \<longrightarrow>
             length kept = 5001 \<and> int (length kept) = \<lceil>10001 / (2 :: rat)\<rceil>) \<and>
          (length (seenTrades st) \<le> 10000 \<and> length (fetchTargetActivity r) \<le> 5000 \<longrightarrow>
             length kept \<le> 10000))) \<and>
   (distinct (seenTrades st) \<and> length (seenTrades st) \<le> 10000 \<and>
    (\<forall>r \<in> set rs. length (fetchTargetActivity r) \<le> 5000) \<longrightarrow>
      (\<forall>c \<in> set (poll_run rs st). length (seenTrades (snd c)) \<le> 10000))"
proof (intro conjI impI)
  assume d: "distinct (seenTrades st)"
  have half: "\<lceil>10001 / (2 :: rat)\<rceil> = 5001"
    by (simp add: ceiling_eq_iff)
  have at_capacity:
    "length (seenTrades (snd (pollForTrades r st))) = 5001 \<and>
     int (length (seenTrades (snd (pollForTrades r st)))) = \<lceil>10001 / (2 :: rat)\<rceil>"
    if "length (seenTrades st @ added (fst (pollForTrades r st))) = 10001"
    using poll_length_exact(1) [OF d that] half by simp
  have bounded: "length (seenTrades (snd (pollForTrades r st))) \<le> 10000"
    if "length (seenTrades st) \<le> 10000 \<and> length (fetchTargetActivity r) \<le> 5000"
    using that d by (intro poll_length) simp_all
  show "let evs = fst (pollForTrades r st);
           kept = seenTrades (snd (pollForTrades r st));
           L = seenTrades st @ added evs
       in distinct L \<and>
          set (added evs) = tradeId ` set (fetchTargetActivity r) - set (seenTrades st) \<and>
          kept = (if 10000 < length L then drop 5000 L else L) \<and>
          deleted evs = (if 10000 < length L then take 5000 L else []) \<and>
          (10000 < length L \<longrightarrow> drop (length evs - 5000) evs = map Delete (take 5000 L)) \<and>
          (length L = 10001 \<longrightarrow>
             length kept = 5001 \<and> int (length kept) = \<lceil>10001 / (2 :: rat)\<rceil>) \<and>
          (length (seenTrades st) \<le> 10000 \<and> length (fetchTargetActivity r) \<le> 5000 \<longrightarrow>
             length kept \<le> 10000)"
    unfolding Let_def
    using poll_ledger_exact [OF d, of r] at_capacity bounded by blast
next
  assume "distinct (seenTrades st) \<and> length (seenTrades st) \<le> 10000 \<and>
    (\<forall>r \<in> set rs. length (fetchTargetActivity r) \<le> 5000)"
  then show "\<forall>c \<in> set (poll_run rs st). length (seenTrades (snd c)) \<le> 10000"
    using run_bounded [of st rs] by blast
qed

theorem seenTrades_capacity_witness:
  "length (seenTrades (snd (pollForTrades response_one full_state))) = 5001 \<and>
   seenTrades (snd (pollForTrades response0 full_state)) =
     drop 5000 (seenTrades full_state @ added (fst (pollForTrades response0 full_state))) \<and>
   deleted (fst (pollForTrades response0 full_state)) =
     take 5000 (seenTrades full_state @ added (fst (pollForTrades response0 full_state))) \<and>
   length (seenTrades (snd (pollForTrades response0 full_state))) \<le> 10000"
proof -
  have d: "distinct (seenTrades full_state)" and l: "length (seenTrades full_state) \<le> 10000"
    using full_state_ledger by simp_all
  have page: "length (fetchTargetActivity response0) \<le> 5000"
    by code_simp
  have pages: "\<forall>r \<in> set [response0]. length (fetchTargetActivity r) \<le> 5000"
    using page by simp
  have over: "10000 < length (seenTrades full_state @ added (fst (pollForTrades response0 full_state)))"
    by (simp only: peak_response0)
  have cycle: "pollForTrades response0 full_state \<in> set (poll_run [response0] full_state)"
    by (simp add: split_beta)
  note one = seenTrades_capacity [of full_state response_one "[response0]", unfolded Let_def]
  note two = seenTrades_capacity [of full_state response0 "[response0]", unfolded Let_def]
  have "length (seenTrades (snd (pollForTrades response_one full_state))) = 5001"
    using one d peak_response_one by blast
  moreover have "seenTrades (snd (pollForTrades response0 full_state)) =
      drop 5000 (seenTrades full_state @ added (fst (pollForTrades response0 full_state)))"
    using two d over by presburger
  moreover have "deleted (fst (pollForTrades response0 full_state)) =
      take 5000 (seenTrades full_state @ added (fst (pollForTrades response0 full_state)))"
    using two d over by presburger
  moreover have "length (seenTrades (snd (pollForTrades response0 full_state))) \<le> 10000"
    using two d l pages cycle by blast
  ultimately show ?thesis
    by blast
qed



subsection \<open>The watermark window\<close>

lemma upt_0_Suc: "[0..<Suc n] = 0 # map Suc [0..<n]"
  by (simp add: upt_conv_Cons map_Suc_upt del: upt_Suc)

lemma positions_Cons:
  "map (nth (t # ts)) (filter Q [0..<length (t # ts)]) =
     (if Q 0 then [t] else []) @ map (nth ts) (filter (\<lambda>i. Q (Suc i)) [0..<length ts])"
  by (simp add: upt_0_Suc filter_map o_def del: upt_Suc)

lemma process_trades_mirrored_positions:
  "mirrored (fst (process_trades w ts seen)) =
     map (nth ts)
       (filter (\<lambda>i. w - 5 \<le> timestamp (ts ! i) \<and>
                     tradeId (ts ! i) \<notin> set seen \<union> tradeId ` set (take i ts))
          [0..<length ts])"
proof (induction ts arbitrary: seen)
  case Nil
  show ?case by simp
next
  case (Cons t ts)
  let ?P = "\<lambda>seen i. w - 5 \<le> timestamp (ts ! i) \<and>
                       tradeId (ts ! i) \<notin> set seen \<union> tradeId ` set (take i ts)"
  let ?Q = "\<lambda>i. w - 5 \<le> timestamp ((t # ts) ! i) \<and>
                  tradeId ((t # ts) ! i) \<notin> set seen \<union> tradeId ` set (take i (t # ts))"
  have first: "?Q 0 \<longleftrightarrow> w - 5 \<le> timestamp t \<and> tradeId t \<notin> set seen"
    by simp
  have rhs: "map (nth (t # ts)) (filter ?Q [0..<length (t # ts)]) =
               (if w - 5 \<le> timestamp t \<and> tradeId t \<notin> set seen then [t] else []) @
               map (nth ts) (filter (\<lambda>i. ?Q (Suc i)) [0..<length ts])"
    unfolding first [symmetric] by (rule positions_Cons)
  show ?case
  proof (cases "tradeId t \<in> set seen")
    case True
    have same: "filter (\<lambda>i. ?Q (Suc i)) [0..<length ts] = filter (?P seen) [0..<length ts]"
      using True by (intro filter_cong) auto
    have "mirrored (fst (process_trades w (t # ts) seen)) =
            mirrored (fst (process_trades w ts seen))"
      using True by (simp add: events_Cons Set_has_def del: process_trades.simps(2))
    also have "\<dots> = map (nth ts) (filter (?P seen) [0..<length ts])"
      by (rule Cons.IH)
    also have "\<dots> = map (nth (t # ts)) (filter ?Q [0..<length (t # ts)])"
      unfolding rhs same using True by simp
    finally show ?thesis .
  next
    case False
    let ?seen' = "Set_add seen (tradeId t)"
    have same: "filter (\<lambda>i. ?Q (Suc i)) [0..<length ts] = filter (?P ?seen') [0..<length ts]"
      using False by (intro filter_cong) (auto simp: Set_add_def)
    have "mirrored (fst (process_trades w (t # ts) seen)) =
            (if w - 5 \<le> timestamp t \<and> tradeId t \<notin> set seen then [t] else []) @
            mirrored (fst (process_trades w ts ?seen'))"
      using False by (simp add: events_Cons Set_has_def del: process_trades.simps(2))
    also have "mirrored (fst (process_trades w ts ?seen')) =
                 map (nth ts) (filter (?P ?seen') [0..<length ts])"
      by (rule Cons.IH)
    also have "(if w - 5 \<le> timestamp t \<and> tradeId t \<notin> set seen then [t] else []) @
                 map (nth ts) (filter (?P ?seen') [0..<length ts]) =
               map (nth (t # ts)) (filter ?Q [0..<length (t # ts)])"
      unfolding rhs same ..
    finally show ?thesis .
  qed
qed



lemma poll_mirrored_positions:
  "mirrored (fst (pollForTrades r st)) =
     map (nth (sort_desc (fetchTargetActivity r)))
       (filter (\<lambda>i. lastTimestamp st - 5 \<le> timestamp (sort_desc (fetchTargetActivity r) ! i) \<and>
                     tradeId (sort_desc (fetchTargetActivity r) ! i) \<notin>
                       set (seenTrades st) \<union> tradeId ` set (take i (sort_desc (fetchTargetActivity r))))
          [0..<length (sort_desc (fetchTargetActivity r))])"
  by (simp only: poll_mirrored process_trades_mirrored_positions)

lemma logTrade_calls_mirrorTrade:
  "logTrade_calls c evs =
     map (\<lambda>t. mirrorTrade c \<lparr>td_asset = JStr (asset t), td_side = act_side t,
                               td_size = act_size t, td_price = act_price t\<rparr>) (mirrored evs)"
  by (simp add: logTrade_calls_def logTrade_def tradeData_of_def)

text \<open>
  C8: a poll cycle with watermark \<open>w\<close> goes through the fetched page newest first. The
  records for which \<open>logTrade\<close> is called are, in order and each once, the records at
  the positions of the sorted page whose timestamp is at least \<open>w - 5\<close> and whose id is
  neither in the ledger nor carried by an earlier record of the page; each call runs the
  order mirror once on the asset, side, size and price of that record. So a fetched
  record older than \<open>w - 5\<close> does not reach the mirror, and its id is marked seen: the
  id was in the ledger or is added in this cycle, and it is in the ledger after the cycle
  unless the clean-up of this cycle deleted it. For a fetched record inside the window
  whose id is not in the ledger, exactly one record with that id reaches the mirror.
  After the cycle the watermark is the larger of the old watermark and the newest fetched
  timestamp.
\<close>

theorem pollForTrades_watermark_window:
  "(let ts = sort_desc (fetchTargetActivity r);
        evs = fst (pollForTrades r st);
        w = lastTimestamp st;
        invoking = filter (\<lambda>i. w - 5 \<le> timestamp (ts ! i) \<and>
                                 tradeId (ts ! i) \<notin> set (seenTrades st) \<union> tradeId ` set (take i ts))
                     [0..<length ts]
    in set ts = set (fetchTargetActivity r) \<and> length ts = length (fetchTargetActivity r) \<and>
       mirrored evs = map (nth ts) invoking \<and>
       logTrade_calls c evs =
         map (\<lambda>i. mirrorTrade c \<lparr>td_asset = JStr (asset (ts ! i)), td_side = act_side (ts ! i),
                                   td_size = act_size (ts ! i), td_price = act_price (ts ! i)\<rparr>)
           invoking \<and>
       (\<forall>t \<in> set (fetchTargetActivity r). timestamp t < w - 5 \<longrightarrow>
          t \<notin> set (mirrored evs) \<and>
          (tradeId t \<in> set (seenTrades st) \<or> Add (tradeId t) \<in> set evs) \<and>
          (tradeId t \<in> set (seenTrades (snd (pollForTrades r st))) \<or>
           Delete (tradeId t) \<in> set evs)) \<and>
       (\<forall>t \<in> set (fetchTargetActivity r).
          w - 5 \<le> timestamp t \<and> tradeId t \<notin> set (seenTrades st) \<longrightarrow>
          length (filter (\<lambda>u. tradeId u = tradeId t) (mirrored evs)) = 1) \<and>
       lastTimestamp (snd (pollForTrades r st)) =
         (if fetchTargetActivity r = [] then w
          else max w (Max (timestamp ` set (fetchTargetActivity r)))))"
proof -
  let ?ts = "sort_desc (fetchTargetActivity r)"
  let ?evs = "fst (pollForTrades r st)"
  let ?w = "lastTimestamp st"
  let ?invoking = "filter (\<lambda>i. ?w - 5 \<le> timestamp (?ts ! i) \<and>
                                 tradeId (?ts ! i) \<notin> set (seenTrades st) \<union> tradeId ` set (take i ?ts))
                     [0..<length ?ts]"
  have positions: "mirrored ?evs = map (nth ?ts) ?invoking"
    by (rule poll_mirrored_positions)
  have calls: "logTrade_calls c ?evs =
      map (\<lambda>i. mirrorTrade c \<lparr>td_asset = JStr (asset (?ts ! i)), td_side = act_side (?ts ! i),
                                td_size = act_size (?ts ! i), td_price = act_price (?ts ! i)\<rparr>)
        ?invoking"
    unfolding logTrade_calls_mirrorTrade positions by (simp only: map_map o_def)
  have stale:
    "t \<notin> set (mirrored ?evs) \<and>
     (tradeId t \<in> set (seenTrades st) \<or> Add (tradeId t) \<in> set ?evs) \<and>
     (tradeId t \<in> set (seenTrades (snd (pollForTrades r st))) \<or> Delete (tradeId t) \<in> set ?evs)"
    if t: "t \<in> set (fetchTargetActivity r)" and old: "timestamp t < ?w - 5" for t
  proof (intro conjI)
    show "t \<notin> set (mirrored ?evs)"
      using old process_trades_mirrored [of t ?w ?ts "seenTrades st"]
      by (auto simp: poll_mirrored)
    have "tradeId t \<notin> set (seenTrades st) \<Longrightarrow> count_list ?evs (Add (tradeId t)) = 1"
      using t by (simp add: poll_count_Add)
    then show "tradeId t \<in> set (seenTrades st) \<or> Add (tradeId t) \<in> set ?evs"
      using count_list_0_iff [of ?evs "Add (tradeId t)"] by fastforce
    have "tradeId t \<in> set (snd (process_trades ?w ?ts (seenTrades st)))"
      using t by (simp add: process_trades_set sort_desc_set)
    then show "tradeId t \<in> set (seenTrades (snd (pollForTrades r st))) \<or>
               Delete (tradeId t) \<in> set ?evs"
      using compact_member [of "tradeId t" "snd (process_trades ?w ?ts (seenTrades st))"]
      by (auto simp: poll_ledger poll_events)
  qed
  have once: "length (filter (\<lambda>u. tradeId u = tradeId t) (mirrored ?evs)) = 1"
    if t: "t \<in> set (fetchTargetActivity r)"
      and inside: "?w - 5 \<le> timestamp t \<and> tradeId t \<notin> set (seenTrades st)" for t
  proof -
    have "t \<in> set ?ts"
      using t by (simp add: sort_desc_set)
    then show ?thesis
      using inside sort_desc_sorted [of "fetchTargetActivity r"]
      by (simp add: poll_mirrored process_trades_fresh_once)
  qed
  show ?thesis
    unfolding Let_def
    using positions calls stale once poll_watermark_Max [of r st]
      sort_desc_set [of "fetchTargetActivity r"] sort_desc_length [of "fetchTargetActivity r"]
    by blast
qed

theorem pollForTrades_watermark_window_witness:
  "timestamp trade_old < lastTimestamp state0 - 5 \<and>
   trade_old \<notin> set (mirrored (fst (pollForTrades response0 state0))) \<and>
   tradeId trade_old \<in> set (seenTrades (snd (pollForTrades response0 state0))) \<and>
   lastTimestamp state0 - 5 \<le> timestamp trade_new \<and>
   mirrored (fst (pollForTrades response0 state0)) = [trade_new] \<and>
   logTrade_calls accepting_client (fst (pollForTrades response0 state0)) =
     [mirrorTrade accepting_client
        \<lparr>td_asset = JStr ''123'', td_side = JStr ''BUY'', td_size = JNum (Fin 5),
         td_price = JNum (Fin (1 / 2))\<rparr>] \<and>
   length (filter (\<lambda>u. tradeId u = tradeId trade_new)
             (mirrored (fst (pollForTrades response0 state0)))) = 1 \<and>
   lastTimestamp (snd (pollForTrades response0 state0)) = 1003"
proof -
  let ?ts = "sort_desc (fetchTargetActivity response0)"
  have old: "trade_old \<in> set (fetchTargetActivity response0)"
    and new: "trade_new \<in> set (fetchTargetActivity response0)"
    by code_simp+
  have stale: "timestamp trade_old < lastTimestamp state0 - 5"
    by (simp add: trade_old_def state0_def)
  have inside: "lastTimestamp state0 - 5 \<le> timestamp trade_new"
    by (simp add: trade_new_def state0_def)
  have unseen: "tradeId trade_new \<notin> set (seenTrades state0)"
    by (simp add: state0_def)
  have no_delete: "Delete (tradeId trade_old) \<notin> set (fst (pollForTrades response0 state0))"
    by code_simp
  have page: "fetchTargetActivity response0 \<noteq> []"
    using old by auto
  have newest: "max (lastTimestamp state0) (Max (timestamp ` set (fetchTargetActivity response0)))
                  = 1003"
    by code_simp
  have invoking:
    "filter (\<lambda>i. lastTimestamp state0 - 5 \<le> timestamp (?ts ! i) \<and>
                  tradeId (?ts ! i) \<notin> set (seenTrades state0) \<union> tradeId ` set (take i ?ts))
       [0..<length ?ts] = [0]"
    by code_simp
  have first: "?ts ! 0 = trade_new"
    by code_simp
  note w = pollForTrades_watermark_window [of response0 state0 accepting_client, unfolded Let_def]
  have m: "mirrored (fst (pollForTrades response0 state0)) = [trade_new]"
    using w by (simp only: invoking list.map first)
  have "logTrade_calls accepting_client (fst (pollForTrades response0 state0)) =
      [mirrorTrade accepting_client
         \<lparr>td_asset = JStr (asset trade_new), td_side = act_side trade_new,
          td_size = act_size trade_new, td_price = act_price trade_new\<rparr>]"
    using w by (simp only: invoking list.map first)
  then have calls: "logTrade_calls accepting_client (fst (pollForTrades response0 state0)) =
      [mirrorTrade accepting_client
         \<lparr>td_asset = JStr ''123'', td_side = JStr ''BUY'', td_size = JNum (Fin 5),
          td_price = JNum (Fin (1 / 2))\<rparr>]"
    by (simp add: trade_new_def)
  have "trade_old \<notin> set (mirrored (fst (pollForTrades response0 state0))) \<and>
        tradeId trade_old \<in> set (seenTrades (snd (pollForTrades response0 state0)))"
    using w old stale no_delete by blast
  moreover have "length (filter (\<lambda>u. tradeId u = tradeId trade_new)
                           (mirrored (fst (pollForTrades response0 state0)))) = 1"
    using w new inside unseen by blast
  moreover have "lastTimestamp (snd (pollForTrades response0 state0)) = 1003"
    using w page newest by simp
  ultimately show ?thesis
    using stale inside m calls by blast
qed


subsection \<open>An id in the ledger is not mirrored again\<close>

text \<open>
  C10: when the id \<open>x\<close> is in the ledger at the start of a run of poll cycles and is
  still in the ledger after each of its cycles, no cycle of the run hands a trade with
  the id \<open>x\<close> to the mirror, whatever timestamp the trade carries and however the id
  came into the ledger.
\<close>

theorem seen_id_never_mirrored_again:
  "x \<in> set (seenTrades st) \<Longrightarrow>
   \<forall>c \<in> set (poll_run rs st). x \<in> set (seenTrades (snd c)) \<Longrightarrow>
   \<forall>c \<in> set (poll_run rs st). \<forall>t \<in> set (mirrored (fst c)). tradeId t \<noteq> x"
proof (induction rs arbitrary: st)
  case Nil
  show ?case by simp
next
  case (Cons r rs)
  let ?c = "pollForTrades r st"
  have here: "\<forall>t \<in> set (mirrored (fst ?c)). tradeId t \<noteq> x"
    using poll_seen_not_mirrored [OF Cons.prems(1), of r] by (auto simp: filter_empty_conv)
  have next_in: "x \<in> set (seenTrades (snd ?c))"
    using Cons.prems(2) by (simp add: poll_run_Cons_set del: poll_run.simps)
  have later: "\<forall>c \<in> set (poll_run rs (snd ?c)). x \<in> set (seenTrades (snd c))"
    using Cons.prems(2) by (simp add: poll_run_Cons_set del: poll_run.simps)
  show ?case
    using here Cons.IH [OF next_in later]
    by (simp add: poll_run_Cons_set del: poll_run.simps)
qed

theorem seen_id_never_mirrored_again_witness:
  "trade_old \<notin> set (mirrored (fst (pollForTrades response0 state0))) \<and>
   tradeId trade_old \<in> set (seenTrades state1) \<and>
   tradeId trade_old_again = tradeId trade_old \<and>
   lastTimestamp state1 - 5 \<le> timestamp trade_old_again \<and>
   trade_old_again \<in> set (fetchTargetActivity response1) \<and>
   trade_old_again \<notin> set (mirrored (fst (pollForTrades response1 state1)))"
proof -
  have backlog: "trade_old \<notin> set (mirrored (fst (pollForTrades response0 state0)))"
    by (simp add: first_cycle trade_old_def trade_new_def)
  have seen: "tradeId trade_old \<in> set (seenTrades state1)"
    by code_simp
  have same: "tradeId trade_old_again = tradeId trade_old"
    by (simp add: trade_old_again_def tradeId_def)
  have inside: "lastTimestamp state1 - 5 \<le> timestamp trade_old_again"
    by (simp add: trade_old_again_def state1_def)
  have fetched: "trade_old_again \<in> set (fetchTargetActivity response1)"
    by code_simp
  have run: "set (poll_run [response1] state1) = {pollForTrades response1 state1}"
    by (simp add: split_beta)
  have retained: "\<forall>c \<in> set (poll_run [response1] state1). tradeId trade_old \<in> set (seenTrades (snd c))"
    unfolding run by (simp add: second_cycle) code_simp
  have "\<forall>c \<in> set (poll_run [response1] state1).
          \<forall>t \<in> set (mirrored (fst c)). tradeId t \<noteq> tradeId trade_old"
    using seen_id_never_mirrored_again [OF seen retained] .
  then have "trade_old_again \<notin> set (mirrored (fst (pollForTrades response1 state1)))"
    unfolding run using same by auto
  then show ?thesis
    using backlog seen same inside fetched by blast
qed

end
